theory Spec2Isabelle
  imports Main "HOL-Library.Word" "HOL-Library.Monad_Syntax"
begin

unbundle bit_operations_syntax

section \<open>Configuration and on-disk layout\<close>

text \<open>
  Modelled from the spec: the four configuration constants are defined in LibDisk.h and
  LibFS.h, which are not part of the source tree. They take the values of the scenario of
  the spec (section 8): \<open>MAX_FILES=64\<close>, \<open>TOTAL_SECTORS=2048\<close>, \<open>SECTOR_SIZE=512\<close>,
  \<open>MAX_SECTORS_PER_FILE=16\<close>. C \<open>int\<close> values are modelled as \<open>int\<close>; a value is cut
  to 32 bits when it is stored in a sector.
\<close>

definition SECTOR_SIZE :: int where "SECTOR_SIZE = 512"
definition TOTAL_SECTORS :: int where "TOTAL_SECTORS = 2048"
definition MAX_FILES :: int where "MAX_FILES = 64"
definition MAX_SECTORS_PER_FILE :: int where "MAX_SECTORS_PER_FILE = 16"

definition SUPERBLOCK_START_SECTOR :: int where "SUPERBLOCK_START_SECTOR = 0"
definition OS_MAGIC :: int where "OS_MAGIC = 0xdeadbeef"
definition INODE_BITMAP_START_SECTOR :: int where "INODE_BITMAP_START_SECTOR = 1"
definition INODE_BITMAP_SIZE :: int where "INODE_BITMAP_SIZE = (MAX_FILES + 7) div 8"
definition INODE_BITMAP_SECTORS :: int where
  "INODE_BITMAP_SECTORS = (INODE_BITMAP_SIZE + SECTOR_SIZE - 1) div SECTOR_SIZE"
definition SECTOR_BITMAP_START_SECTOR :: int where
  "SECTOR_BITMAP_START_SECTOR = INODE_BITMAP_START_SECTOR + INODE_BITMAP_SECTORS"
definition SECTOR_BITMAP_SIZE :: int where "SECTOR_BITMAP_SIZE = (TOTAL_SECTORS + 7) div 8"
definition SECTOR_BITMAP_SECTORS :: int where
  "SECTOR_BITMAP_SECTORS = (SECTOR_BITMAP_SIZE + SECTOR_SIZE - 1) div SECTOR_SIZE"
definition INODE_TABLE_START_SECTOR :: int where
  "INODE_TABLE_START_SECTOR = SECTOR_BITMAP_START_SECTOR + SECTOR_BITMAP_SECTORS"

text \<open>
  \<open>inode_t\<close> is \<open>int size; int type; int data[MAX_SECTORS_PER_FILE]\<close> and \<open>dirent_t\<close> is
  \<open>char fname[16]; int inode\<close>; with 4-byte \<open>int\<close> there is no padding.
\<close>

definition sizeof_inode_t :: int where "sizeof_inode_t = 4 + 4 + 4 * MAX_SECTORS_PER_FILE"
definition INODES_PER_SECTOR :: int where "INODES_PER_SECTOR = SECTOR_SIZE div sizeof_inode_t"
definition INODE_TABLE_SECTORS :: int where
  "INODE_TABLE_SECTORS = (MAX_FILES + INODES_PER_SECTOR - 1) div INODES_PER_SECTOR"
definition DATABLOCK_START_SECTOR :: int where
  "DATABLOCK_START_SECTOR = INODE_TABLE_START_SECTOR + INODE_TABLE_SECTORS"
definition MAX_PATH :: int where "MAX_PATH = 256"
definition MAX_NAME :: int where "MAX_NAME = 16"
definition MAX_OPEN_FILES :: int where "MAX_OPEN_FILES = 256"
definition sizeof_dirent_t :: int where "sizeof_dirent_t = MAX_NAME + 4"
definition DIRENTS_PER_SECTOR :: int where "DIRENTS_PER_SECTOR = SECTOR_SIZE div sizeof_dirent_t"

section \<open>C arithmetic\<close>

text \<open>
  \<open>/\<close> and \<open>%\<close> on \<open>int\<close> truncate towards zero. \<open>INODES_PER_SECTOR\<close> and
  \<open>DIRENTS_PER_SECTOR\<close> contain \<open>sizeof\<close>, so an \<open>int\<close> that meets them in \<open>/\<close>, \<open>%\<close>, \<open>*\<close>
  or a comparison is first converted to the unsigned 64-bit \<open>size_t\<close> (\<open>size_t_of\<close>), and
  the result is cut back to 32 bits when it is assigned to an \<open>int\<close> (\<open>int_of\<close>). An \<open>int\<close>
  argument of a function is a value between \<open>- 2 ^ 31\<close> and \<open>2 ^ 31 - 1\<close>. Where a sum or
  difference of \<open>int\<close> values in \<open>File_Read\<close> and \<open>File_Write\<close> can leave that range,
  which is undefined behaviour in C, it wraps around (\<open>int_of\<close>), as the compiled code does.
\<close>

definition tdiv :: "int \<Rightarrow> int \<Rightarrow> int" where
  "tdiv a b = sgn a * sgn b * (\<bar>a\<bar> div \<bar>b\<bar>)"

definition tmod :: "int \<Rightarrow> int \<Rightarrow> int" where
  "tmod a b = a - b * tdiv a b"

definition size_t_of :: "int \<Rightarrow> int" where
  "size_t_of x = x mod 2 ^ 64"

definition int_of :: "int \<Rightarrow> int" where
  "int_of x = (x + 2 ^ 31) mod 2 ^ 32 - 2 ^ 31"

definition sgn_c :: "int \<Rightarrow> int" where
  "sgn_c n = (if n = 0 then 0 else if n > 0 then 1 else -1)"

section \<open>The block device\<close>

type_synonym byte = "8 word"
type_synonym sector = "byte list"
type_synonym disk = "int \<Rightarrow> sector"

text \<open>
  Modelled from the spec: \<open>Disk_Read\<close> and \<open>Disk_Write\<close> belong to LibDisk.c, which is not
  part of the source tree. Section 6 of the spec gives their contract: each addresses one
  fixed-size block by a zero-based index within the fixed total sector count, and fails
  otherwise. \<open>None\<close> is the failure (a negative return value).
\<close>

definition Disk_Read :: "int \<Rightarrow> disk \<Rightarrow> sector option" where
  "Disk_Read sec d = (if 0 \<le> sec \<and> sec < TOTAL_SECTORS then Some (d sec) else None)"

definition Disk_Write :: "int \<Rightarrow> sector \<Rightarrow> disk \<Rightarrow> disk option" where
  "Disk_Write sec buf d = (if 0 \<le> sec \<and> sec < TOTAL_SECTORS then Some (d(sec := buf)) else None)"

text \<open>A call of \<open>Disk_Write\<close> whose return value the source ignores.\<close>

definition Disk_Write_ignored :: "int \<Rightarrow> sector \<Rightarrow> disk \<Rightarrow> disk" where
  "Disk_Write_ignored sec buf d = (case Disk_Write sec buf d of None \<Rightarrow> d | Some d' \<Rightarrow> d')"

text \<open>Modelled from the spec: \<open>Disk_Init\<close> prepares an empty simulated device.\<close>

definition zero_sector :: sector where
  "zero_sector = replicate (nat SECTOR_SIZE) 0"

definition empty_disk :: disk where
  "empty_disk = (\<lambda>_. zero_sector)"

section \<open>Integers and records inside a sector buffer\<close>

text \<open>
  A 32-bit little-endian two's complement \<open>int\<close> at byte offset \<open>p\<close> of a buffer, as the
  pointer casts of the source read and write it. An access that leaves the buffer is
  undefined behaviour: \<open>None\<close>. The records \<open>inode_t\<close> and \<open>dirent_t\<close> are laid over a
  sector buffer by a cast, and a field is addressed by its byte offset: \<open>size\<close> at 0,
  \<open>type\<close> at 4 and \<open>data[i]\<close> at \<open>8 + 4 * i\<close> of an inode, \<open>fname\<close> at 0 and \<open>inode\<close> at 16
  of an entry. An index \<open>i\<close> past the end of \<open>data\<close> that stays inside the buffer addresses
  the bytes that follow the record, the fields of the next inode, which is what the
  compiled code does.
\<close>

definition in_buf :: "int \<Rightarrow> int \<Rightarrow> byte list \<Rightarrow> bool" where
  "in_buf p n buf \<longleftrightarrow> 0 \<le> p \<and> 0 \<le> n \<and> p + n \<le> int (length buf)"

definition get_bytes :: "byte list \<Rightarrow> int \<Rightarrow> int \<Rightarrow> byte list" where
  "get_bytes buf p n = take (nat n) (drop (nat p) buf)"

definition put_bytes :: "byte list \<Rightarrow> int \<Rightarrow> byte list \<Rightarrow> byte list" where
  "put_bytes buf p bs = take (nat p) buf @ bs @ drop (nat p + length bs) buf"

definition encode_int :: "int \<Rightarrow> byte list" where
  "encode_int v = [word_of_int (v mod 256), word_of_int (v div 256 mod 256),
                   word_of_int (v div 65536 mod 256), word_of_int (v div 16777216 mod 256)]"

definition get_int :: "byte list \<Rightarrow> int \<Rightarrow> int option" where
  "get_int buf p =
     (if in_buf p 4 buf then
        Some (int_of (uint (buf ! nat p) + 256 * uint (buf ! (nat p + 1))
                      + 65536 * uint (buf ! (nat p + 2)) + 16777216 * uint (buf ! (nat p + 3))))
      else None)"

definition set_int :: "byte list \<Rightarrow> int \<Rightarrow> int \<Rightarrow> byte list option" where
  "set_int buf p v = (if in_buf p 4 buf then Some (put_bytes buf p (encode_int v)) else None)"

text \<open>\<open>memset(buf + p, 0, n)\<close> and \<open>memcpy(dst + p, src + q, n)\<close>.\<close>

definition memset0 :: "byte list \<Rightarrow> int \<Rightarrow> int \<Rightarrow> byte list option" where
  "memset0 buf p n = (if in_buf p n buf then Some (put_bytes buf p (replicate (nat n) 0)) else None)"

definition memcpy :: "byte list \<Rightarrow> int \<Rightarrow> byte list \<Rightarrow> int \<Rightarrow> int \<Rightarrow> byte list option" where
  "memcpy dst p src q n =
     (if in_buf p n dst \<and> in_buf q n src then Some (put_bytes dst p (get_bytes src q n)) else None)"

section \<open>Bitmap allocator\<close>

text \<open>\<open>for (i = lo; i < hi; i++) Disk_Write(i, buf);\<close>\<close>

function write_sectors :: "int \<Rightarrow> int \<Rightarrow> sector \<Rightarrow> disk \<Rightarrow> disk" where
  "write_sectors i hi buf d =
     (if i < hi then write_sectors (i + 1) hi buf (Disk_Write_ignored i buf d) else d)"
  by pat_completeness auto
termination
  by (relation "measure (\<lambda>(i, hi, buf, d). nat (hi - i))") auto

declare write_sectors.simps [simp del]

text \<open>\<open>for (i = lo; i < hi; i++) buf[i] = v;\<close>\<close>

function fill_bytes :: "int \<Rightarrow> int \<Rightarrow> byte \<Rightarrow> byte list \<Rightarrow> byte list option" where
  "fill_bytes i hi v buf =
     (if i < hi then
        (if in_buf i 1 buf then fill_bytes (i + 1) hi v (buf[nat i := v]) else None)
      else Some buf)"
  by pat_completeness auto
termination
  by (relation "measure (\<lambda>(i, hi, v, buf). nat (hi - i))") auto

declare fill_bytes.simps [simp del]

definition bits_init :: "byte list" where
  "bits_init = [0x0, 0x80, 0xC0, 0xE0, 0xF0, 0xF8, 0xFC, 0xFE]"

definition bitmap_init :: "int \<Rightarrow> int \<Rightarrow> int \<Rightarrow> disk \<Rightarrow> disk option" where
  "bitmap_init start num nbits d =
     (let a = tdiv (tdiv nbits 8) SECTOR_SIZE;
          b = tmod (tdiv nbits 8) SECTOR_SIZE;
          c = num - a - sgn_c b;
          r = tmod nbits 8
      in do {
        buf0 \<leftarrow> fill_bytes 0 SECTOR_SIZE 0xff zero_sector;
        let d1 = write_sectors start (start + a) buf0 d;
        if in_buf b 1 buf0 \<and> 0 \<le> r \<and> r < 8 then do {
          buf1 \<leftarrow> fill_bytes (b + 1) SECTOR_SIZE 0 (buf0[nat b := bits_init ! nat r]);
          let d2 = Disk_Write_ignored (start + a) buf1 d1;
          buf2 \<leftarrow> fill_bytes 0 b 0 buf1;
          Some (write_sectors (start + a + 1) (start + a + 1 + c) buf2 d2)
        } else None
      })"

text \<open>
  \<open>bitmap_first_unused\<close>: the loop over the bits of a byte, the loop over the bytes of a
  sector and the loop over the sectors. The result is the return value and the device.
\<close>

definition bits_unused :: "byte list" where
  "bits_unused = [0x80, 0x40, 0x20, 0x10, 0x08, 0x04, 0x02, 0x01]"

function scan_bits :: "byte \<Rightarrow> int \<Rightarrow> int option" where
  "scan_bits b k =
     (if k < 8 then
        (if b AND bits_unused ! nat k = 0 then Some k else scan_bits b (k + 1))
      else None)"
  by pat_completeness auto
termination
  by (relation "measure (\<lambda>(b, k). nat (8 - k))") auto

declare scan_bits.simps [simp del]

function scan_bytes :: "sector \<Rightarrow> int \<Rightarrow> (int \<times> int) option" where
  "scan_bytes buf j =
     (if j < SECTOR_SIZE then
        (if buf ! nat j < 0xff then
           (case scan_bits (buf ! nat j) 0 of
              Some k \<Rightarrow> Some (j, k)
            | None \<Rightarrow> scan_bytes buf (j + 1))
         else scan_bytes buf (j + 1))
      else None)"
  by pat_completeness auto
termination
  by (relation "measure (\<lambda>(buf, j). nat (SECTOR_SIZE - j))") auto

declare scan_bytes.simps [simp del]

function scan_sectors :: "int \<Rightarrow> int \<Rightarrow> int \<Rightarrow> int \<Rightarrow> disk \<Rightarrow> int \<times> disk" where
  "scan_sectors i start num nbits d =
     (if i < num then
        (case Disk_Read (i + start) d of
           None \<Rightarrow> (-2, d)
         | Some buf \<Rightarrow>
             (case scan_bytes buf 0 of
                Some (j, k) \<Rightarrow>
                  (let pos = (i * SECTOR_SIZE + j) * 8 + k;
                       buf' = buf[nat j := buf ! nat j OR bits_unused ! nat k]
                   in case Disk_Write (i + start) buf' d of
                        None \<Rightarrow> (-2, d)
                      | Some d' \<Rightarrow> if pos < nbits then (pos, d') else (-1, d'))
              | None \<Rightarrow> scan_sectors (i + 1) start num nbits d))
      else (-1, d))"
  by pat_completeness auto
termination
  by (relation "measure (\<lambda>(i, start, num, nbits, d). nat (num - i))") auto

declare scan_sectors.simps [simp del]

definition bitmap_first_unused :: "int \<Rightarrow> int \<Rightarrow> int \<Rightarrow> disk \<Rightarrow> int \<times> disk" where
  "bitmap_first_unused start num nbits d = scan_sectors 0 start num nbits d"

text \<open>
  \<open>bitmap_reset\<close>. A negative \<open>bit\<close> (a shift by a negative count) or a \<open>byte\<close> outside the
  buffer is undefined behaviour: \<open>None\<close>.
\<close>

definition bitmap_reset :: "int \<Rightarrow> int \<Rightarrow> int \<Rightarrow> disk \<Rightarrow> (int \<times> disk) option" where
  "bitmap_reset start num ibit d =
     (let sector = start + tdiv ibit SECTOR_SIZE;
          byte = tdiv (tmod ibit SECTOR_SIZE) 8;
          bit = tmod ibit 8
      in case Disk_Read sector d of
           None \<Rightarrow> Some (-2, d)
         | Some buf \<Rightarrow>
             if 0 \<le> bit \<and> in_buf byte 1 buf then
               (let mask = NOT (drop_bit (nat bit) (128 :: byte));
                    buf' = buf[nat byte := buf ! nat byte AND mask]
                in case Disk_Write sector buf' d of
                     None \<Rightarrow> Some (-2, d)
                   | Some d' \<Rightarrow> Some (0, d'))
             else None)"

section \<open>Path resolver\<close>

definition legal_char :: "char \<Rightarrow> bool" where
  "legal_char c \<longleftrightarrow>
     (let n = (of_char c :: nat)
      in (65 \<le> n \<and> n \<le> 90) \<or> (97 \<le> n \<and> n \<le> 122) \<or> (48 \<le> n \<and> n \<le> 57)
         \<or> c = CHR ''.'' \<or> c = CHR ''-'' \<or> c = CHR ''_'')"

fun illegal_filename_from :: "string \<Rightarrow> int \<Rightarrow> int" where
  "illegal_filename_from [] len = (if len < MAX_NAME then 0 else 1)"
| "illegal_filename_from (c # cs) len =
     (if \<not> legal_char c then 1 else illegal_filename_from cs (len + 1))"

definition illegal_filename :: "string \<Rightarrow> int" where
  "illegal_filename name = illegal_filename_from name 0"

text \<open>
  \<open>!strcmp(buf + p, fname)\<close>: the bytes at \<open>p\<close> are compared with the characters of
  \<open>fname\<close> up to the first difference or the terminating NUL.
\<close>

fun cstr_eq_at :: "byte list \<Rightarrow> int \<Rightarrow> string \<Rightarrow> bool option" where
  "cstr_eq_at buf p [] = (if in_buf p 1 buf then Some (buf ! nat p = 0) else None)"
| "cstr_eq_at buf p (c # cs) =
     (if in_buf p 1 buf then
        (if buf ! nat p = of_char c then cstr_eq_at buf (p + 1) cs else Some False)
      else None)"

text \<open>
  The loop over the entries of one directory sector in \<open>find_child_inode\<close>:
  \<open>None\<close> is undefined behaviour, \<open>Some None\<close> no match in this sector.
\<close>

function find_in_sector :: "byte list \<Rightarrow> string \<Rightarrow> int \<Rightarrow> int \<Rightarrow> int option option" where
  "find_in_sector buf fname nentries i =
     (if i < DIRENTS_PER_SECTOR then
        (if i > nentries then Some None
         else (case cstr_eq_at buf (i * sizeof_dirent_t) fname of
                 None \<Rightarrow> None
               | Some True \<Rightarrow> map_option Some (get_int buf (i * sizeof_dirent_t + MAX_NAME))
               | Some False \<Rightarrow> find_in_sector buf fname nentries (i + 1)))
      else Some None)"
  by pat_completeness auto
termination
  by (relation "measure (\<lambda>(buf, fname, nentries, i). nat (DIRENTS_PER_SECTOR - i))") auto

declare find_in_sector.simps [simp del]

text \<open>
  The \<open>while (nentries > 0)\<close> loop of \<open>find_child_inode\<close>. The result is the return value,
  the cached sector number and the cached buffer.
\<close>

function find_child_loop ::
  "sector \<Rightarrow> int \<Rightarrow> string \<Rightarrow> int \<Rightarrow> int \<Rightarrow> int \<Rightarrow> disk \<Rightarrow> (int \<times> int \<times> sector) option" where
  "find_child_loop cbuf poff fname nentries idx cs d =
     (if nentries > 0 then
        (case get_int cbuf (poff + 8 + 4 * idx) of
           None \<Rightarrow> None
         | Some sec \<Rightarrow>
             (case Disk_Read sec d of
                None \<Rightarrow> Some (-2, cs, cbuf)
              | Some buf \<Rightarrow>
                  (case find_in_sector buf fname nentries 0 of
                     None \<Rightarrow> None
                   | Some (Some child_inode) \<Rightarrow>
                       (let sector = int_of (INODE_TABLE_START_SECTOR
                                             + size_t_of child_inode div INODES_PER_SECTOR)
                        in if sector \<noteq> cs then
                             (case Disk_Read sector d of
                                None \<Rightarrow> Some (-2, sector, cbuf)
                              | Some cbuf' \<Rightarrow> Some (child_inode, sector, cbuf'))
                           else Some (child_inode, cs, cbuf))
                   | Some None \<Rightarrow>
                       find_child_loop cbuf poff fname (nentries - DIRENTS_PER_SECTOR)
                         (idx + 1) cs d)))
      else Some (-1, cs, cbuf))"
  by pat_completeness auto
termination
  by (relation "measure (\<lambda>(cbuf, poff, fname, nentries, idx, cs, d). nat nentries)")
     (auto simp: DIRENTS_PER_SECTOR_def SECTOR_SIZE_def sizeof_dirent_t_def MAX_NAME_def)

declare find_child_loop.simps [simp del]

definition find_child_inode ::
  "int \<Rightarrow> string \<Rightarrow> int \<Rightarrow> sector \<Rightarrow> disk \<Rightarrow> (int \<times> int \<times> sector) option" where
  "find_child_inode parent_inode fname cs cbuf d =
     (let cached_start_entry = int_of (size_t_of (cs - INODE_TABLE_START_SECTOR) * INODES_PER_SECTOR);
          offset = parent_inode - cached_start_entry
      in if 0 \<le> offset \<and> offset < INODES_PER_SECTOR then do {
           type \<leftarrow> get_int cbuf (offset * sizeof_inode_t + 4);
           if type \<noteq> 1 then Some (-2, cs, cbuf)
           else do {
             nentries \<leftarrow> get_int cbuf (offset * sizeof_inode_t);
             find_child_loop cbuf (offset * sizeof_inode_t) fname nentries 0 cs d
           }
         } else None)"

text \<open>The tokens \<open>strsep\<close> cuts out of the path at every \<open>/\<close>, empty ones included.\<close>

fun split_slash :: "string \<Rightarrow> string list" where
  "split_slash [] = [[]]"
| "split_slash (c # cs) =
     (if c = CHR ''/'' then [] # split_slash cs
      else (case split_slash cs of [] \<Rightarrow> [[c]] | t # ts \<Rightarrow> (c # t) # ts))"

text \<open>
  The token loop of \<open>follow_path\<close>: \<open>None\<close> is undefined behaviour, \<open>Some None\<close> is
  \<open>return -1\<close>, and \<open>Some (Some (parent_inode, child_inode, last_fname))\<close> the end of the loop.
\<close>

fun follow_tokens ::
  "string list \<Rightarrow> int \<Rightarrow> int \<Rightarrow> int \<Rightarrow> sector \<Rightarrow> string \<Rightarrow> disk
     \<Rightarrow> (int \<times> int \<times> string) option option" where
  "follow_tokens [] parent_inode child_inode cs cbuf last_fname d =
     Some (Some (parent_inode, child_inode, last_fname))"
| "follow_tokens (t # ts) parent_inode child_inode cs cbuf last_fname d =
     (if t = [] then follow_tokens ts parent_inode child_inode cs cbuf last_fname d
      else if illegal_filename t \<noteq> 0 then Some None
      else if child_inode < 0 then Some None
      else (case find_child_inode child_inode t cs cbuf d of
              None \<Rightarrow> None
            | Some (r, cs', cbuf') \<Rightarrow> follow_tokens ts child_inode r cs' cbuf' t d))"

text \<open>
  \<open>follow_path\<close> returns the parent inode, or -1 without setting \<open>*last_inode\<close>
  (\<open>Path_Invalid\<close>). The path is a C string, not \<open>NULL\<close>.
\<close>

datatype path_result = Path_Invalid | Path_Found int int string

definition follow_path :: "string \<Rightarrow> disk \<Rightarrow> path_result option" where
  "follow_path path d =
     (case path of
        [] \<Rightarrow> Some Path_Invalid
      | c # rest \<Rightarrow>
          if c \<noteq> CHR ''/'' then Some Path_Invalid
          else (case Disk_Read INODE_TABLE_START_SECTOR d of
                  None \<Rightarrow> Some Path_Invalid
                | Some cbuf \<Rightarrow>
                    (case follow_tokens (split_slash (take (nat (MAX_PATH - 1)) rest))
                            (-1) 0 INODE_TABLE_START_SECTOR cbuf [] d of
                       None \<Rightarrow> None
                     | Some None \<Rightarrow> Some Path_Invalid
                     | Some (Some (parent_inode, child_inode, last_fname)) \<Rightarrow>
                         if child_inode < -1 then Some Path_Invalid
                         else Some (Path_Found
                                (if parent_inode = -1 \<and> child_inode = 0 then 0 else parent_inode)
                                child_inode last_fname))))"

section \<open>Inode lifecycle\<close>

text \<open>
  The sector and the slot of an inode in the inode table, as \<open>i / INODES_PER_SECTOR\<close> and
  \<open>i % INODES_PER_SECTOR\<close> compute them in \<open>size_t\<close>.
\<close>

definition inode_sector_of :: "int \<Rightarrow> int" where
  "inode_sector_of i = int_of (INODE_TABLE_START_SECTOR + size_t_of i div INODES_PER_SECTOR)"

definition inode_slot_of :: "int \<Rightarrow> int" where
  "inode_slot_of i = int_of (size_t_of i mod INODES_PER_SECTOR)"

text \<open>
  \<open>offset = i - (inode_sector - INODE_TABLE_START_SECTOR) * INODES_PER_SECTOR\<close> followed by
  \<open>assert(0 <= offset && offset < INODES_PER_SECTOR)\<close>; a failed assertion aborts: \<open>None\<close>.
\<close>

definition asserted_offset :: "int \<Rightarrow> int \<Rightarrow> int option" where
  "asserted_offset i inode_sector =
     (let inode_start_entry =
            int_of (size_t_of (inode_sector - INODE_TABLE_START_SECTOR) * INODES_PER_SECTOR);
          offset = i - inode_start_entry
      in if 0 \<le> offset \<and> offset < INODES_PER_SECTOR then Some offset else None)"

text \<open>\<open>strncpy(dirent->fname, file, MAX_NAME)\<close>: the name, padded with NUL to 16 bytes.\<close>

definition strncpy_name :: "string \<Rightarrow> byte list" where
  "strncpy_name file = take (nat MAX_NAME) (map of_char file @ replicate (nat MAX_NAME) 0)"

text \<open>
  The end of \<open>add_inode\<close>: the entry is written into \<open>dirent_buffer\<close>, the buffer goes to the
  sector \<open>parent->data[group]\<close> (\<open>grp\<close> is the variable \<open>group\<close> of the source), and the parent inode is written back with its size
  incremented.
\<close>

definition add_inode_entry ::
  "int \<Rightarrow> sector \<Rightarrow> int \<Rightarrow> int \<Rightarrow> int \<Rightarrow> string \<Rightarrow> int \<Rightarrow> sector \<Rightarrow> disk
     \<Rightarrow> (int \<times> disk) option" where
  "add_inode_entry inode_sector inode_buffer parent psize grp file child_inode dirent_buffer d =
     (let start_entry = int_of (size_t_of grp * DIRENTS_PER_SECTOR);
          offset = psize - start_entry;
          dirent = offset * sizeof_dirent_t
      in if in_buf dirent MAX_NAME dirent_buffer then do {
           b \<leftarrow> set_int (put_bytes dirent_buffer dirent (strncpy_name file))
                  (dirent + MAX_NAME) child_inode;
           sec \<leftarrow> get_int inode_buffer (parent + 8 + 4 * grp);
           (case Disk_Write sec b d of
              None \<Rightarrow> Some (-1, d)
            | Some d1 \<Rightarrow> do {
                ib \<leftarrow> set_int inode_buffer parent (psize + 1);
                (case Disk_Write inode_sector ib d1 of
                   None \<Rightarrow> Some (-1, d1)
                 | Some d2 \<Rightarrow> Some (0, d2))
              })
         } else None)"

text \<open>The middle of \<open>add_inode\<close>: the parent inode and the directory sector of the entry.\<close>

definition add_inode_parent :: "int \<Rightarrow> string \<Rightarrow> int \<Rightarrow> disk \<Rightarrow> (int \<times> disk) option" where
  "add_inode_parent parent_inode file child_inode d =
     (let inode_sector = inode_sector_of parent_inode
      in case Disk_Read inode_sector d of
           None \<Rightarrow> Some (-1, d)
         | Some inode_buffer \<Rightarrow> do {
             offset \<leftarrow> asserted_offset parent_inode inode_sector;
             ptype \<leftarrow> get_int inode_buffer (offset * sizeof_inode_t + 4);
             psize \<leftarrow> get_int inode_buffer (offset * sizeof_inode_t);
             (let parent = offset * sizeof_inode_t;
                  grp = int_of (size_t_of psize div DIRENTS_PER_SECTOR)
              in if ptype \<noteq> 1 then Some (-2, d)
                 else if size_t_of (size_t_of grp * DIRENTS_PER_SECTOR) = size_t_of psize then
                   (case bitmap_first_unused SECTOR_BITMAP_START_SECTOR SECTOR_BITMAP_SECTORS
                           SECTOR_BITMAP_SIZE d of
                      (newsec, d1) \<Rightarrow>
                        if newsec < 0 then Some (-1, d1)
                        else do {
                          ib \<leftarrow> set_int inode_buffer (parent + 8 + 4 * grp) newsec;
                          add_inode_entry inode_sector ib parent psize grp file child_inode
                            zero_sector d1
                        })
                 else do {
                   sec \<leftarrow> get_int inode_buffer (parent + 8 + 4 * grp);
                   (case Disk_Read sec d of
                      None \<Rightarrow> Some (-1, d)
                    | Some dirent_buffer \<Rightarrow>
                        add_inode_entry inode_sector inode_buffer parent psize grp file
                          child_inode dirent_buffer d)
                 })
           })"

definition add_inode :: "int \<Rightarrow> int \<Rightarrow> string \<Rightarrow> disk \<Rightarrow> (int \<times> disk) option" where
  "add_inode type parent_inode file d =
     (case bitmap_first_unused INODE_BITMAP_START_SECTOR INODE_BITMAP_SECTORS INODE_BITMAP_SIZE d of
        (child_inode, d1) \<Rightarrow>
          if child_inode < 0 then Some (-1, d1)
          else (let inode_sector = inode_sector_of child_inode
                in case Disk_Read inode_sector d1 of
                     None \<Rightarrow> Some (-1, d1)
                   | Some inode_buffer \<Rightarrow> do {
                       offset \<leftarrow> asserted_offset child_inode inode_sector;
                       b1 \<leftarrow> memset0 inode_buffer (offset * sizeof_inode_t) sizeof_inode_t;
                       b2 \<leftarrow> set_int b1 (offset * sizeof_inode_t + 4) type;
                       (case Disk_Write inode_sector b2 d1 of
                          None \<Rightarrow> Some (-1, d1)
                        | Some d2 \<Rightarrow> add_inode_parent parent_inode file child_inode d2)
                     }))"

text \<open>
  The loop over the entries of a directory sector in \<open>remove_inode\<close>: the first entry
  whose inode is \<open>child_inode\<close> is zeroed. The result is the buffer and whether an entry
  matched.
\<close>

function zero_matching_entry ::
  "byte list \<Rightarrow> int \<Rightarrow> int \<Rightarrow> int \<Rightarrow> (byte list \<times> bool) option" where
  "zero_matching_entry buf child_inode bound dir =
     (if dir < bound then
        (case get_int buf (dir * sizeof_dirent_t + MAX_NAME) of
           None \<Rightarrow> None
         | Some ino \<Rightarrow>
             if ino = child_inode then
               map_option (\<lambda>b. (b, True)) (memset0 buf (dir * sizeof_dirent_t) sizeof_dirent_t)
             else zero_matching_entry buf child_inode bound (dir + 1))
      else Some (buf, False))"
  by pat_completeness auto
termination
  by (relation "measure (\<lambda>(buf, child_inode, bound, dir). nat (bound - dir))") auto

declare zero_matching_entry.simps [simp del]

text \<open>
  The loop over the full directory sectors in \<open>remove_inode\<close>, with its
  \<open>if (!found) break;\<close>. \<open>None\<close> is undefined behaviour, \<open>Some None\<close> is \<open>return -1\<close>,
  otherwise the result is \<open>found\<close> and \<open>dirent_buf\<close> after the loop.
\<close>

function remove_scan_full ::
  "sector \<Rightarrow> int \<Rightarrow> int \<Rightarrow> int \<Rightarrow> int \<Rightarrow> int \<Rightarrow> sector \<Rightarrow> disk
     \<Rightarrow> (int \<times> sector) option option" where
  "remove_scan_full pbuf parent child_inode full_dirent_secs dir_sec found dirent_buf d =
     (if dir_sec < full_dirent_secs then
        (if found = 0 then Some (Some (found, dirent_buf))
         else (case get_int pbuf (parent + 8 + 4 * dir_sec) of
                 None \<Rightarrow> None
               | Some sec \<Rightarrow>
                   (case Disk_Read sec d of
                      None \<Rightarrow> Some None
                    | Some buf \<Rightarrow>
                        (case zero_matching_entry buf child_inode DIRENTS_PER_SECTOR 0 of
                           None \<Rightarrow> None
                         | Some (buf', hit) \<Rightarrow>
                             remove_scan_full pbuf parent child_inode full_dirent_secs
                               (dir_sec + 1) (if hit then sec else found) buf' d))))
      else Some (Some (found, dirent_buf)))"
  by pat_completeness auto
termination
  by (relation "measure (\<lambda>(pbuf, parent, child_inode, full_dirent_secs, dir_sec, found,
         dirent_buf, d). nat (full_dirent_secs - dir_sec))") auto

declare remove_scan_full.simps [simp del]

text \<open>The end of \<open>remove_inode\<close>, from \<open>if (!found) return -1\<close> on.\<close>

definition remove_inode_finish :: "int \<Rightarrow> int \<Rightarrow> sector \<Rightarrow> disk \<Rightarrow> (int \<times> disk) option" where
  "remove_inode_finish child_inode found dirent_buf d =
     (if found = 0 then Some (-1, d)
      else do {
        (r, d1) \<leftarrow> bitmap_reset INODE_BITMAP_START_SECTOR INODE_BITMAP_SECTORS child_inode d;
        (case Disk_Write found dirent_buf d1 of
           None \<Rightarrow> Some (-1, d1)
         | Some d2 \<Rightarrow> Some (0, d2))
      })"

text \<open>The search of \<open>remove_inode\<close> in the directory sectors of the parent.\<close>

definition remove_inode_search :: "sector \<Rightarrow> int \<Rightarrow> int \<Rightarrow> int \<Rightarrow> disk \<Rightarrow> (int \<times> disk) option" where
  "remove_inode_search pbuf parent psize child_inode d =
     (let full_dirent_secs = int_of (size_t_of psize div DIRENTS_PER_SECTOR);
          partial_dirent_sec =
            sgn_c (int_of (size_t_of (size_t_of psize
                                       - size_t_of full_dirent_secs * DIRENTS_PER_SECTOR)))
      in case remove_scan_full pbuf parent child_inode full_dirent_secs 0 0 zero_sector d of
           None \<Rightarrow> None
         | Some None \<Rightarrow> Some (-1, d)
         | Some (Some (found, dirent_buf)) \<Rightarrow>
             if found = 0 \<and> partial_dirent_sec \<noteq> 0 then do {
               sec \<leftarrow> get_int pbuf (parent + 8 + 4 * full_dirent_secs);
               (case Disk_Read sec d of
                  None \<Rightarrow> Some (-1, d)
                | Some buf \<Rightarrow> do {
                    (buf', hit) \<leftarrow> zero_matching_entry buf child_inode
                                      (size_t_of psize mod DIRENTS_PER_SECTOR) 0;
                    remove_inode_finish child_inode (if hit then sec else found) buf' d
                  })
             } else remove_inode_finish child_inode found dirent_buf d)"

definition remove_inode :: "int \<Rightarrow> int \<Rightarrow> int \<Rightarrow> disk \<Rightarrow> (int \<times> disk) option" where
  "remove_inode type parent_inode child_inode d =
     (case Disk_Read (inode_sector_of child_inode) d of
        None \<Rightarrow> Some (-1, d)
      | Some child_inode_buf \<Rightarrow> do {
          ctype \<leftarrow> get_int child_inode_buf (inode_slot_of child_inode * sizeof_inode_t + 4);
          csize \<leftarrow> get_int child_inode_buf (inode_slot_of child_inode * sizeof_inode_t);
          if ctype \<noteq> type then Some (-3, d)
          else if ctype = 1 \<and> csize > 0 then Some (-2, d)
          else if ctype \<noteq> 1 \<and> csize > 0 then Some (-1, d)
          else (case Disk_Read (inode_sector_of parent_inode) d of
                  None \<Rightarrow> Some (-1, d)
                | Some parent_inode_buf \<Rightarrow> do {
                    ptype \<leftarrow> get_int parent_inode_buf
                               (inode_slot_of parent_inode * sizeof_inode_t + 4);
                    psize \<leftarrow> get_int parent_inode_buf
                               (inode_slot_of parent_inode * sizeof_inode_t);
                    if ptype \<noteq> 1 then Some (-3, d)
                    else remove_inode_search parent_inode_buf
                           (inode_slot_of parent_inode * sizeof_inode_t) psize child_inode d
                  })
        })"

section \<open>Open file table\<close>

text \<open>
  The error codes of LibFS.h, which is not part of the source tree, by name; \<open>E_NONE\<close> is
  the value of \<open>osErrno\<close> before any error.
\<close>

datatype os_error = E_NONE | E_GENERAL | E_CREATE | E_NO_SUCH_FILE | E_TOO_MANY_OPEN_FILES
  | E_BAD_FD | E_NO_SPACE | E_FILE_TOO_BIG | E_SEEK_OUT_OF_BOUNDS | E_FILE_IN_USE
  | E_NO_SUCH_DIR | E_DIR_NOT_EMPTY | E_ROOT_DIR | E_BUFFER_TOO_SMALL

record open_file_t =
  f_inode :: int
  f_size :: int
  f_pos :: int

text \<open>The state of the library: the device, the table \<open>open_files\<close> and \<open>osErrno\<close>.\<close>

record fs =
  disk :: disk
  open_files :: "open_file_t list"
  osErrno :: os_error

definition free_entry :: open_file_t where
  "free_entry = \<lparr>f_inode = 0, f_size = 0, f_pos = 0\<rparr>"

function is_file_open_from :: "int \<Rightarrow> int \<Rightarrow> open_file_t list \<Rightarrow> int" where
  "is_file_open_from i inode tab =
     (if i < MAX_OPEN_FILES then
        (if f_inode (tab ! nat i) = inode then 1 else is_file_open_from (i + 1) inode tab)
      else 0)"
  by pat_completeness auto
termination
  by (relation "measure (\<lambda>(i, inode, tab). nat (MAX_OPEN_FILES - i))") auto

declare is_file_open_from.simps [simp del]

definition is_file_open :: "int \<Rightarrow> open_file_t list \<Rightarrow> int" where
  "is_file_open inode tab = is_file_open_from 0 inode tab"

function new_file_fd_from :: "int \<Rightarrow> open_file_t list \<Rightarrow> int" where
  "new_file_fd_from i tab =
     (if i < MAX_OPEN_FILES then
        (if f_inode (tab ! nat i) \<le> 0 then i else new_file_fd_from (i + 1) tab)
      else -1)"
  by pat_completeness auto
termination
  by (relation "measure (\<lambda>(i, tab). nat (MAX_OPEN_FILES - i))") auto

declare new_file_fd_from.simps [simp del]

definition new_file_fd :: "open_file_t list \<Rightarrow> int" where
  "new_file_fd tab = new_file_fd_from 0 tab"

text \<open>\<open>open_files[fd]\<close>; an index outside the array is undefined behaviour.\<close>

definition table_entry :: "open_file_t list \<Rightarrow> int \<Rightarrow> open_file_t option" where
  "table_entry tab fd = (if 0 \<le> fd \<and> fd < MAX_OPEN_FILES then Some (tab ! nat fd) else None)"

section \<open>API\<close>

text \<open>
  Modelled from the spec: \<open>Disk_Load\<close> and \<open>Disk_Save\<close> belong to LibDisk.c. \<open>Disk_Load\<close>
  either loads an image (whose backing file has the expected size or not), or fails
  because the file cannot be opened, or fails otherwise; \<open>Disk_Save\<close> succeeds.
\<close>

datatype load_result = Load_Ok disk bool | Load_No_File | Load_Error

function format_inode_table :: "int \<Rightarrow> disk \<Rightarrow> disk option" where
  "format_inode_table i d =
     (if i < INODE_TABLE_SECTORS then
        (case Disk_Write (INODE_TABLE_START_SECTOR + i)
                (if i = 0 then put_bytes (put_bytes zero_sector 0 (encode_int 0)) 4 (encode_int 1)
                 else zero_sector) d of
           None \<Rightarrow> None
         | Some d' \<Rightarrow> format_inode_table (i + 1) d')
      else Some d)"
  by pat_completeness auto
termination
  by (relation "measure (\<lambda>(i, d). nat (INODE_TABLE_SECTORS - i))") auto

declare format_inode_table.simps [simp del]

definition check_magic :: "disk \<Rightarrow> int" where
  "check_magic d =
     (case Disk_Read SUPERBLOCK_START_SECTOR d of
        None \<Rightarrow> 0
      | Some buf \<Rightarrow>
          (case get_int buf 0 of
             None \<Rightarrow> 0
           | Some m \<Rightarrow> if m mod 2 ^ 32 = OS_MAGIC then 1 else 0))"

definition FS_Boot :: "load_result \<Rightarrow> fs \<Rightarrow> (int \<times> fs) option" where
  "FS_Boot lr s =
     (case lr of
        Load_No_File \<Rightarrow>
          (case Disk_Write SUPERBLOCK_START_SECTOR (put_bytes zero_sector 0 (encode_int OS_MAGIC))
                  empty_disk of
             None \<Rightarrow> Some (-1, s\<lparr>disk := empty_disk, osErrno := E_GENERAL\<rparr>)
           | Some d1 \<Rightarrow> do {
               d2 \<leftarrow> bitmap_init INODE_BITMAP_START_SECTOR INODE_BITMAP_SECTORS 1 d1;
               d3 \<leftarrow> bitmap_init SECTOR_BITMAP_START_SECTOR SECTOR_BITMAP_SECTORS
                       DATABLOCK_START_SECTOR d2;
               (case format_inode_table 0 d3 of
                  None \<Rightarrow> Some (-1, s\<lparr>disk := d3, osErrno := E_GENERAL\<rparr>)
                | Some d4 \<Rightarrow>
                    Some (0, s\<lparr>disk := d4,
                               open_files := replicate (nat MAX_OPEN_FILES) free_entry\<rparr>))
             })
      | Load_Error \<Rightarrow> Some (-1, s\<lparr>osErrno := E_GENERAL\<rparr>)
      | Load_Ok d size_ok \<Rightarrow>
          if \<not> size_ok then Some (-1, s\<lparr>disk := d, osErrno := E_GENERAL\<rparr>)
          else if check_magic d \<noteq> 0 then
            Some (0, s\<lparr>disk := d, open_files := replicate (nat MAX_OPEN_FILES) free_entry\<rparr>)
          else Some (-1, s\<lparr>disk := d, osErrno := E_GENERAL\<rparr>))"

definition create_file_or_directory :: "int \<Rightarrow> string \<Rightarrow> fs \<Rightarrow> (int \<times> fs) option" where
  "create_file_or_directory type pathname s =
     (case follow_path pathname (disk s) of
        None \<Rightarrow> None
      | Some Path_Invalid \<Rightarrow> Some (-1, s\<lparr>osErrno := E_CREATE\<rparr>)
      | Some (Path_Found parent_inode child_inode last_fname) \<Rightarrow>
          if parent_inode \<ge> 0 then
            (if child_inode \<ge> 0 then Some (-1, s\<lparr>osErrno := E_CREATE\<rparr>)
             else (case add_inode type parent_inode last_fname (disk s) of
                     None \<Rightarrow> None
                   | Some (r, d') \<Rightarrow>
                       if r \<ge> 0 then Some (0, s\<lparr>disk := d'\<rparr>)
                       else Some (-1, s\<lparr>disk := d', osErrno := E_CREATE\<rparr>)))
          else Some (-1, s\<lparr>osErrno := E_CREATE\<rparr>))"

definition File_Create :: "string \<Rightarrow> fs \<Rightarrow> (int \<times> fs) option" where
  "File_Create file s = create_file_or_directory 0 file s"

definition Dir_Create :: "string \<Rightarrow> fs \<Rightarrow> (int \<times> fs) option" where
  "Dir_Create path s = create_file_or_directory 1 path s"

text \<open>
  The loop \<open>for (i = 0; i < child->size; i++) bitmap_reset(..., child->data[i])\<close> of
  \<open>File_Unlink\<close>; the return value of \<open>bitmap_reset\<close> is ignored.
\<close>

function unlink_free_sectors :: "sector \<Rightarrow> int \<Rightarrow> int \<Rightarrow> int \<Rightarrow> disk \<Rightarrow> disk option" where
  "unlink_free_sectors cbuf child csize i d =
     (if i < csize then
        (case get_int cbuf (child + 8 + 4 * i) of
           None \<Rightarrow> None
         | Some sec \<Rightarrow>
             (case bitmap_reset SECTOR_BITMAP_START_SECTOR SECTOR_BITMAP_SECTORS sec d of
                None \<Rightarrow> None
              | Some (r, d') \<Rightarrow> unlink_free_sectors cbuf child csize (i + 1) d'))
      else Some d)"
  by pat_completeness auto
termination
  by (relation "measure (\<lambda>(cbuf, child, csize, i, d). nat (csize - i))") auto

declare unlink_free_sectors.simps [simp del]

definition File_Unlink :: "string \<Rightarrow> fs \<Rightarrow> (int \<times> fs) option" where
  "File_Unlink file s =
     (case follow_path file (disk s) of
        None \<Rightarrow> None
      | Some Path_Invalid \<Rightarrow> Some (-1, s\<lparr>osErrno := E_NO_SUCH_FILE\<rparr>)
      | Some (Path_Found parent_inode child_inode file_name) \<Rightarrow>
          if parent_inode < 0 then Some (-1, s\<lparr>osErrno := E_NO_SUCH_FILE\<rparr>)
          else if is_file_open child_inode (open_files s) \<noteq> 0 then
            Some (-1, s\<lparr>osErrno := E_FILE_IN_USE\<rparr>)
          else
            (case Disk_Read (inode_sector_of child_inode) (disk s) of
               None \<Rightarrow> Some (-1, s)
             | Some cbuf \<Rightarrow> do {
                 ctype \<leftarrow> get_int cbuf (inode_slot_of child_inode * sizeof_inode_t + 4);
                 if ctype \<noteq> 0 then Some (-2, s)
                 else do {
                   csize \<leftarrow> get_int cbuf (inode_slot_of child_inode * sizeof_inode_t);
                   d1 \<leftarrow> unlink_free_sectors cbuf (inode_slot_of child_inode * sizeof_inode_t)
                           csize 0 (disk s);
                   cbuf' \<leftarrow> set_int cbuf (inode_slot_of child_inode * sizeof_inode_t) 0;
                   (case Disk_Write (inode_sector_of child_inode) cbuf' d1 of
                      None \<Rightarrow> Some (-1, s\<lparr>disk := d1\<rparr>)
                    | Some d2 \<Rightarrow>
                        (case remove_inode 0 parent_inode child_inode d2 of
                           None \<Rightarrow> None
                         | Some (r, d3) \<Rightarrow>
                             if r < 0 then Some (-1, s\<lparr>disk := d3\<rparr>)
                             else Some (0, s\<lparr>disk := d3\<rparr>)))
                 }
               }))"

text \<open>
  \<open>File_Open\<close> ignores the return value of \<open>follow_path\<close>; after a failed resolution it
  reads \<open>child_inode\<close> uninitialised, which is undefined behaviour.
\<close>

definition File_Open :: "string \<Rightarrow> fs \<Rightarrow> (int \<times> fs) option" where
  "File_Open file s =
     (let fd = new_file_fd (open_files s)
      in if fd < 0 then Some (-1, s\<lparr>osErrno := E_TOO_MANY_OPEN_FILES\<rparr>)
         else
           (case follow_path file (disk s) of
              None \<Rightarrow> None
            | Some Path_Invalid \<Rightarrow> None
            | Some (Path_Found parent_inode child_inode last_fname) \<Rightarrow>
                if child_inode \<ge> 0 then
                  (case Disk_Read (inode_sector_of child_inode) (disk s) of
                     None \<Rightarrow> Some (-1, s\<lparr>osErrno := E_GENERAL\<rparr>)
                   | Some inode_buffer \<Rightarrow> do {
                       offset \<leftarrow> asserted_offset child_inode (inode_sector_of child_inode);
                       ctype \<leftarrow> get_int inode_buffer (offset * sizeof_inode_t + 4);
                       csize \<leftarrow> get_int inode_buffer (offset * sizeof_inode_t);
                       if ctype \<noteq> 0 then Some (-1, s\<lparr>osErrno := E_GENERAL\<rparr>)
                       else Some (fd, s\<lparr>open_files := (open_files s)
                              [nat fd := \<lparr>f_inode = child_inode, f_size = csize, f_pos = 0\<rparr>]\<rparr>)
                     })
                else Some (-1, s\<lparr>osErrno := E_NO_SUCH_FILE\<rparr>)))"

text \<open>
  The \<open>while\<close> loop of \<open>File_Read\<close>. Every pass copies to the start of \<open>buffer\<close>:
  \<open>memcpy(buffer, data_buf + curr_pos_in_sec, to_read)\<close>. The result is the return value,
  the caller's buffer and \<open>f->pos\<close>. In every call from \<open>File_Read\<close>, \<open>to_read\<close> is
  positive; the branch for the other case only makes the recursion well-founded.
\<close>

function file_read_loop ::
  "sector \<Rightarrow> int \<Rightarrow> int \<Rightarrow> int \<Rightarrow> int \<Rightarrow> int \<Rightarrow> byte list \<Rightarrow> int \<Rightarrow> int \<Rightarrow> disk
     \<Rightarrow> (int \<times> byte list \<times> int) option" where
  "file_read_loop inode_buffer child left curr_pos_in_sec curr_sec out_pos buffer pos fsize d =
     (if left > 0 \<and> pos < fsize then
        (case get_int inode_buffer (child + 8 + 4 * curr_sec) of
           None \<Rightarrow> None
         | Some sec \<Rightarrow>
             (case Disk_Read sec d of
                None \<Rightarrow> Some (-1, buffer, pos)
              | Some data_buf \<Rightarrow>
                  (let to_read = (if int_of (left + curr_pos_in_sec) > SECTOR_SIZE
                                  then SECTOR_SIZE - curr_pos_in_sec else left)
                   in if to_read \<le> 0 then None
                      else (case memcpy buffer 0 data_buf curr_pos_in_sec to_read of
                              None \<Rightarrow> None
                            | Some buffer' \<Rightarrow>
                                file_read_loop inode_buffer child (left - to_read) 0 (curr_sec + 1)
                                  (int_of (out_pos + to_read)) buffer'
                                  (if int_of (pos + to_read) > fsize then fsize
                                   else int_of (pos + to_read))
                                  fsize d))))
      else Some (out_pos, buffer, pos))"
  by pat_completeness auto
termination
  by (relation "measure (\<lambda>(inode_buffer, child, left, curr_pos_in_sec, curr_sec, out_pos,
         buffer, pos, fsize, d). nat left)") auto

declare file_read_loop.simps [simp del]

definition File_Read :: "int \<Rightarrow> byte list \<Rightarrow> int \<Rightarrow> fs \<Rightarrow> (int \<times> byte list \<times> fs) option" where
  "File_Read fd buffer sz s =
     (if is_file_open fd (open_files s) = 0 then Some (-1, buffer, s\<lparr>osErrno := E_BAD_FD\<rparr>)
      else do {
        f \<leftarrow> table_entry (open_files s) fd;
        if f_pos f = f_size f then Some (0, buffer, s)
        else
          (case Disk_Read (inode_sector_of (f_inode f)) (disk s) of
             None \<Rightarrow> Some (-1, buffer, s\<lparr>osErrno := E_GENERAL\<rparr>)
           | Some inode_buffer \<Rightarrow> do {
               offset \<leftarrow> asserted_offset (f_inode f) (inode_sector_of (f_inode f));
               (r, buffer', pos') \<leftarrow>
                 file_read_loop inode_buffer (offset * sizeof_inode_t) sz
                   (tmod (f_pos f) SECTOR_SIZE) (tdiv (f_pos f) SECTOR_SIZE) 0 buffer
                   (f_pos f) (f_size f) (disk s);
               Some (r, buffer', s\<lparr>open_files := (open_files s)[nat fd := f\<lparr>f_pos := pos'\<rparr>]\<rparr>)
             })
      })"

text \<open>
  The allocation loop of \<open>File_Write\<close>: \<open>Some (False, _)\<close> is the exit with
  \<open>E_NO_SPACE\<close>.
\<close>

function write_alloc_loop :: "int \<Rightarrow> int \<Rightarrow> sector \<Rightarrow> int \<Rightarrow> disk \<Rightarrow> (bool \<times> sector \<times> disk) option" where
  "write_alloc_loop i hi inode_buffer child d =
     (if i < hi then
        (case bitmap_first_unused SECTOR_BITMAP_START_SECTOR SECTOR_BITMAP_SECTORS
                SECTOR_BITMAP_SIZE d of
           (next, d') \<Rightarrow>
             if next < 0 then Some (False, inode_buffer, d')
             else (case set_int inode_buffer (child + 8 + 4 * i) next of
                     None \<Rightarrow> None
                   | Some ib \<Rightarrow> write_alloc_loop (i + 1) hi ib child d'))
      else Some (True, inode_buffer, d))"
  by pat_completeness auto
termination
  by (relation "measure (\<lambda>(i, hi, inode_buffer, child, d). nat (hi - i))") auto

declare write_alloc_loop.simps [simp del]

text \<open>
  The copy loop of \<open>File_Write\<close>. The result is whether the loop ran to its end (otherwise
  the function returned -1), \<open>left\<close>, \<open>f->pos\<close> and the device.
\<close>

function file_write_loop ::
  "sector \<Rightarrow> int \<Rightarrow> int \<Rightarrow> int \<Rightarrow> int \<Rightarrow> int \<Rightarrow> int \<Rightarrow> byte list \<Rightarrow> int \<Rightarrow> disk
     \<Rightarrow> (bool \<times> int \<times> int \<times> disk) option" where
  "file_write_loop inode_buffer child allocated_secs left curr_pos_in_sec curr_sec in_pos buffer
       pos d =
     (if left > 0 \<and> curr_sec < allocated_secs then
        (case get_int inode_buffer (child + 8 + 4 * curr_sec) of
           None \<Rightarrow> None
         | Some sec \<Rightarrow>
             (case Disk_Read sec d of
                None \<Rightarrow> Some (False, left, pos, d)
              | Some data_buf \<Rightarrow>
                  (let to_write = (if left > SECTOR_SIZE then SECTOR_SIZE - curr_pos_in_sec
                                   else left - curr_pos_in_sec)
                   in case memcpy data_buf curr_pos_in_sec buffer in_pos to_write of
                        None \<Rightarrow> None
                      | Some data_buf' \<Rightarrow>
                          (case Disk_Write sec data_buf' d of
                             None \<Rightarrow> Some (False, left, pos, d)
                           | Some d' \<Rightarrow>
                               file_write_loop inode_buffer child allocated_secs (left - to_write)
                                 0 (curr_sec + 1) (in_pos + to_write) buffer
                                 (int_of (pos + to_write)) d'))))
      else Some (True, left, pos, d))"
  by pat_completeness auto
termination
  by (relation "measure (\<lambda>(inode_buffer, child, allocated_secs, left, curr_pos_in_sec,
         curr_sec, in_pos, buffer, pos, d). nat (allocated_secs - curr_sec))") auto

declare file_write_loop.simps [simp del]

definition File_Write :: "int \<Rightarrow> byte list \<Rightarrow> int \<Rightarrow> fs \<Rightarrow> (int \<times> fs) option" where
  "File_Write fd buffer sz s =
     (if is_file_open fd (open_files s) = 0 then Some (-1, s\<lparr>osErrno := E_BAD_FD\<rparr>)
      else do {
        f \<leftarrow> table_entry (open_files s) fd;
        if int_of (f_pos f + sz) > MAX_SECTORS_PER_FILE * SECTOR_SIZE then
          Some (-1, s\<lparr>osErrno := E_FILE_TOO_BIG\<rparr>)
        else
          (case Disk_Read (inode_sector_of (f_inode f)) (disk s) of
             None \<Rightarrow> Some (-1, s\<lparr>osErrno := E_GENERAL\<rparr>)
           | Some inode_buffer \<Rightarrow> do {
               offset \<leftarrow> asserted_offset (f_inode f) (inode_sector_of (f_inode f));
               (let child = offset * sizeof_inode_t;
                    allocated_secs = tdiv (int_of (f_size f + SECTOR_SIZE - 1)) SECTOR_SIZE;
                    needed_secs = tdiv (int_of (sz - (allocated_secs * SECTOR_SIZE - f_pos f)
                                                + SECTOR_SIZE - 1)) SECTOR_SIZE
                in do {
                  (ok, ib, d1) \<leftarrow> write_alloc_loop allocated_secs (allocated_secs + needed_secs)
                                    inode_buffer child (disk s);
                  if \<not> ok then Some (-1, s\<lparr>disk := d1, osErrno := E_NO_SPACE\<rparr>)
                  else do {
                    csize \<leftarrow> get_int ib child;
                    ib1 \<leftarrow> set_int ib child (csize + sz);
                    (case Disk_Write (inode_sector_of (f_inode f)) ib1 d1 of
                       None \<Rightarrow> Some (-1, s\<lparr>disk := d1\<rparr>)
                     | Some d2 \<Rightarrow> do {
                         ib2 \<leftarrow> set_int ib1 child (int_of (f_pos f + sz));
                         (done, left, pos', d3) \<leftarrow>
                           file_write_loop ib2 child (allocated_secs + needed_secs) sz
                             (tmod (f_pos f) SECTOR_SIZE) (tdiv (f_pos f) SECTOR_SIZE) 0 buffer
                             (f_pos f) d2;
                         Some (if done then int_of (sz - left) else -1,
                               s\<lparr>disk := d3, open_files := (open_files s)
                                    [nat fd := f\<lparr>f_size := int_of (f_pos f + sz),
                                                  f_pos := pos'\<rparr>]\<rparr>)
                       })
                  }
                })
             })
      })"

definition File_Seek :: "int \<Rightarrow> int \<Rightarrow> fs \<Rightarrow> (int \<times> fs) option" where
  "File_Seek fd offset s =
     (if is_file_open fd (open_files s) = 0 then Some (-1, s\<lparr>osErrno := E_BAD_FD\<rparr>)
      else do {
        f \<leftarrow> table_entry (open_files s) fd;
        if offset > f_size f \<or> offset < 0 then Some (-1, s\<lparr>osErrno := E_SEEK_OUT_OF_BOUNDS\<rparr>)
        else Some (0, s\<lparr>open_files := (open_files s)[nat fd := f\<lparr>f_pos := offset\<rparr>]\<rparr>)
      })"

text \<open>
  \<open>File_Close\<close> lets \<open>fd = MAX_OPEN_FILES\<close> pass its bound check and then reads
  \<open>open_files[fd]\<close> outside the array, which is undefined behaviour.
\<close>

definition File_Close :: "int \<Rightarrow> fs \<Rightarrow> (int \<times> fs) option" where
  "File_Close fd s =
     (if 0 > fd \<or> fd > MAX_OPEN_FILES then Some (-1, s\<lparr>osErrno := E_BAD_FD\<rparr>)
      else do {
        f \<leftarrow> table_entry (open_files s) fd;
        if f_inode f \<le> 0 then Some (-1, s\<lparr>osErrno := E_BAD_FD\<rparr>)
        else Some (0, s\<lparr>open_files := (open_files s)[nat fd := f\<lparr>f_inode := 0\<rparr>]\<rparr>)
      })"

definition Dir_Unlink :: "string \<Rightarrow> fs \<Rightarrow> (int \<times> fs) option" where
  "Dir_Unlink path s =
     (if path = ''/'' then Some (-1, s\<lparr>osErrno := E_ROOT_DIR\<rparr>)
      else
        (case follow_path path (disk s) of
           None \<Rightarrow> None
         | Some Path_Invalid \<Rightarrow> Some (-1, s\<lparr>osErrno := E_NO_SUCH_DIR\<rparr>)
         | Some (Path_Found parent_inode child_inode path_name) \<Rightarrow>
             if parent_inode < 0 then Some (-1, s\<lparr>osErrno := E_NO_SUCH_DIR\<rparr>)
             else (case remove_inode 1 parent_inode child_inode (disk s) of
                     None \<Rightarrow> None
                   | Some (success, d') \<Rightarrow>
                       if success < 0 then Some (-1, s\<lparr>disk := d', osErrno := E_DIR_NOT_EMPTY\<rparr>)
                       else Some (0, s\<lparr>disk := d'\<rparr>))))"

text \<open>
  \<open>Dir_Size\<close> ignores the return value of \<open>Disk_Read\<close>; after a failed read it uses the
  buffer uninitialised, which is undefined behaviour.
\<close>

definition Dir_Size :: "string \<Rightarrow> fs \<Rightarrow> (int \<times> fs) option" where
  "Dir_Size path s =
     (case follow_path path (disk s) of
        None \<Rightarrow> None
      | Some Path_Invalid \<Rightarrow> Some (-1, s\<lparr>osErrno := E_NO_SUCH_DIR\<rparr>)
      | Some (Path_Found parent_node child_node child_name) \<Rightarrow>
          if parent_node < 0 then Some (-1, s\<lparr>osErrno := E_NO_SUCH_DIR\<rparr>)
          else do {
            inode_buffer \<leftarrow> Disk_Read (inode_sector_of child_node) (disk s);
            csize \<leftarrow> get_int inode_buffer (inode_slot_of child_node * sizeof_inode_t);
            Some (int_of (size_t_of csize * sizeof_dirent_t), s)
          })"

text \<open>
  The loop of \<open>Dir_Read\<close> over the full directory sectors. The result is whether the loop
  ran to its end (otherwise the function returned -1), the caller's buffer and \<open>out_pos\<close>.
\<close>

function dir_read_loop ::
  "sector \<Rightarrow> int \<Rightarrow> int \<Rightarrow> int \<Rightarrow> int \<Rightarrow> byte list \<Rightarrow> disk \<Rightarrow> (bool \<times> byte list \<times> int) option" where
  "dir_read_loop inode_buffer child bound i out_pos buffer d =
     (if i < bound then
        (case get_int inode_buffer (child + 8 + 4 * i) of
           None \<Rightarrow> None
         | Some sec \<Rightarrow>
             (case Disk_Read sec d of
                None \<Rightarrow> Some (False, buffer, out_pos)
              | Some sec_buf \<Rightarrow>
                  (case memcpy buffer out_pos sec_buf 0 (DIRENTS_PER_SECTOR * sizeof_dirent_t) of
                     None \<Rightarrow> None
                   | Some buffer' \<Rightarrow>
                       dir_read_loop inode_buffer child bound (i + 1)
                         (out_pos + DIRENTS_PER_SECTOR * sizeof_dirent_t) buffer' d)))
      else Some (True, buffer, out_pos))"
  by pat_completeness auto
termination
  by (relation "measure (\<lambda>(inode_buffer, child, bound, i, out_pos, buffer, d). nat (bound - i))")
     auto

declare dir_read_loop.simps [simp del]

definition Dir_Read :: "string \<Rightarrow> byte list \<Rightarrow> int \<Rightarrow> fs \<Rightarrow> (int \<times> byte list \<times> fs) option" where
  "Dir_Read path buffer sz s =
     (case follow_path path (disk s) of
        None \<Rightarrow> None
      | Some Path_Invalid \<Rightarrow> Some (-1, buffer, s\<lparr>osErrno := E_NO_SUCH_DIR\<rparr>)
      | Some (Path_Found parent_node child_node child_name) \<Rightarrow>
          if parent_node < 0 then Some (-1, buffer, s\<lparr>osErrno := E_NO_SUCH_DIR\<rparr>)
          else
            (case Disk_Read (inode_sector_of child_node) (disk s) of
               None \<Rightarrow> Some (-1, buffer, s)
             | Some inode_buffer \<Rightarrow> do {
                 csize \<leftarrow> get_int inode_buffer (inode_slot_of child_node * sizeof_inode_t);
                 if size_t_of sz < size_t_of (size_t_of csize * sizeof_dirent_t) then
                   Some (-1, buffer, s\<lparr>osErrno := E_BUFFER_TOO_SMALL\<rparr>)
                 else do {
                   (done, buffer1, out_pos) \<leftarrow>
                     dir_read_loop inode_buffer (inode_slot_of child_node * sizeof_inode_t)
                       (size_t_of csize div DIRENTS_PER_SECTOR) 0 0 buffer (disk s);
                   if \<not> done then Some (-1, buffer1, s)
                   else
                     (let left = int_of (size_t_of csize mod DIRENTS_PER_SECTOR)
                      in if left > 0 then do {
                           sec \<leftarrow> get_int inode_buffer
                                    (inode_slot_of child_node * sizeof_inode_t + 8
                                     + 4 * (size_t_of csize div DIRENTS_PER_SECTOR));
                           (case Disk_Read sec (disk s) of
                              None \<Rightarrow> Some (-1, buffer1, s)
                            | Some sec_buf \<Rightarrow> do {
                                buffer2 \<leftarrow> memcpy buffer1 out_pos sec_buf 0
                                             (left * sizeof_dirent_t);
                                Some (csize, buffer2, s)
                              })
                         } else Some (csize, buffer1, s))
                 }
               }))"

section \<open>Notions of the specification\<close>

text \<open>Every sector of the device holds \<open>SECTOR_SIZE\<close> bytes.\<close>

definition wf_disk :: "disk \<Rightarrow> bool" where
  "wf_disk d \<longleftrightarrow> (\<forall>sec. length (d sec) = nat SECTOR_SIZE)"

text \<open>
  Bit \<open>p\<close> of the bitmap region that starts at sector \<open>start\<close>: a flat bit array over the
  sectors, most significant bit first within each byte (section 3 of the spec).
\<close>

definition bitmap_bit :: "disk \<Rightarrow> int \<Rightarrow> int \<Rightarrow> bool" where
  "bitmap_bit d start p \<longleftrightarrow>
     bit (d (start + p div (SECTOR_SIZE * 8)) ! nat (p mod (SECTOR_SIZE * 8) div 8))
         (7 - nat (p mod 8))"

text \<open>
  The entry slots of a directory in on-disk order: slot \<open>j\<close> is the record number
  \<open>j mod DIRENTS_PER_SECTOR\<close> of the sector number \<open>j div DIRENTS_PER_SECTOR\<close> of the block
  list \<open>secs\<close>.
\<close>

definition dir_slot :: "disk \<Rightarrow> int list \<Rightarrow> nat \<Rightarrow> byte list" where
  "dir_slot d secs j =
     get_bytes (d (secs ! (j div nat DIRENTS_PER_SECTOR)))
       (int (j mod nat DIRENTS_PER_SECTOR) * sizeof_dirent_t) sizeof_dirent_t"

definition dir_slots :: "disk \<Rightarrow> int list \<Rightarrow> nat \<Rightarrow> byte list" where
  "dir_slots d secs n = concat (map (dir_slot d secs) [0..<n])"

text \<open>
  \<open>secs\<close> is the start of the block list of the inode at byte offset \<open>child\<close> of
  \<open>inode_buffer\<close>, and its entries are sectors of the device.
\<close>

definition block_list :: "sector \<Rightarrow> int \<Rightarrow> int list \<Rightarrow> bool" where
  "block_list inode_buffer child secs \<longleftrightarrow>
     list_all (\<lambda>i. get_int inode_buffer (child + 8 + 4 * int i) = Some (secs ! i)
                    \<and> 0 \<le> secs ! i \<and> secs ! i < TOTAL_SECTORS) [0..<length secs]"

section \<open>Scenarios\<close>

text \<open>The state of the library before \<open>FS_Boot\<close>: the static data is zero.\<close>

definition initial_state :: fs where
  "initial_state =
     \<lparr>disk = empty_disk, open_files = replicate (nat MAX_OPEN_FILES) free_entry,
      osErrno = E_NONE\<rparr>"

text \<open>
  A fresh volume; a new file is created and opened, 513 bytes (512 times 1, then 2) are
  written at cursor 0, the cursor is set back to 0 and 513 bytes are read into a zeroed
  buffer. The result is the return values of \<open>File_Create\<close>, \<open>File_Open\<close>, \<open>File_Write\<close>,
  \<open>File_Seek\<close>, \<open>File_Read\<close> and the buffer after the read.
\<close>

definition read_back_scenario :: "(int \<times> int \<times> int \<times> int \<times> int \<times> byte list) option" where
  "read_back_scenario = do {
     (r0, s1) \<leftarrow> FS_Boot Load_No_File initial_state;
     (rc, s2) \<leftarrow> File_Create ''/f'' s1;
     (fd, s3) \<leftarrow> File_Open ''/f'' s2;
     (rw, s4) \<leftarrow> File_Write fd (replicate 512 1 @ [2]) 513 s3;
     (rs, s5) \<leftarrow> File_Seek fd 0 s4;
     (rr, buffer, s6) \<leftarrow> File_Read fd (replicate 513 0) 513 s5;
     Some (rc, fd, rw, rs, rr, buffer)
   }"

text \<open>
  A volume whose root directory has 25 entry slots, one full sector (sector 13): slot 0
  is the entry \<open>a\<close> of inode 1, slot 24 is the entry \<open>x\<close> of inode 2, both empty files,
  and the slots 1 to 23 are zeroed. On a fresh volume, creating \<open>/a\<close>, then creating and
  unlinking \<open>/x\<close> 23 times, then creating \<open>/x\<close> once more leaves the volume in this state.
\<close>

definition full_dir_disk :: disk where
  "full_dir_disk = empty_disk
     (0 := encode_int OS_MAGIC @ replicate 508 0,
      1 := 0xE0 # replicate 511 0,
      2 := 0xFF # 0xFC # replicate 510 0,
      3 := encode_int 25 @ encode_int 1 @ encode_int 13 @ replicate 500 0,
      13 := strncpy_name ''a'' @ encode_int 1 @ replicate 460 0
            @ strncpy_name ''x'' @ encode_int 2 @ replicate 12 0)"

text \<open>
  A fresh volume; \<open>/a\<close> is created, opened, two bytes are written, the file is closed and
  unlinked. The result is the return value of \<open>File_Unlink\<close> and the sector-bitmap bits of
  sector 14 (the data sector of the file) and of sector 0 (the superblock), before and
  after \<open>File_Unlink\<close>.
\<close>

definition unlink_scenario :: "(int \<times> bool \<times> bool \<times> bool \<times> bool) option" where
  "unlink_scenario = do {
     (r0, s1) \<leftarrow> FS_Boot Load_No_File initial_state;
     (r1, s2) \<leftarrow> File_Create ''/a'' s1;
     (fd, s3) \<leftarrow> File_Open ''/a'' s2;
     (rw, s4) \<leftarrow> File_Write fd [1, 2] 2 s3;
     (rc, s5) \<leftarrow> File_Close fd s4;
     (ru, s6) \<leftarrow> File_Unlink ''/a'' s5;
     Some (ru, bitmap_bit (disk s5) SECTOR_BITMAP_START_SECTOR 14,
               bitmap_bit (disk s6) SECTOR_BITMAP_START_SECTOR 14,
               bitmap_bit (disk s5) SECTOR_BITMAP_START_SECTOR 0,
               bitmap_bit (disk s6) SECTOR_BITMAP_START_SECTOR 0)
   }"

text \<open>
  A fresh volume; \<open>/a\<close> and \<open>/b\<close> are created, 3 bytes are written to \<open>/b\<close> and 17 bytes to
  \<open>/a\<close>, \<open>/a\<close> is unlinked, and 1025 zero bytes are written to \<open>/b\<close>. The result is the
  return values of the eleven calls after \<open>FS_Boot\<close>, and the size field of the root
  directory inode before and after the last call.
\<close>

definition dir_size_scenario :: "(int list \<times> int option \<times> int option) option" where
  "dir_size_scenario = do {
     (r0, s1) \<leftarrow> FS_Boot Load_No_File initial_state;
     (r1, s2) \<leftarrow> File_Create ''/a'' s1;
     (r2, s3) \<leftarrow> File_Create ''/b'' s2;
     (r3, s4) \<leftarrow> File_Open ''/b'' s3;
     (r4, s5) \<leftarrow> File_Write r3 [1, 1, 1] 3 s4;
     (r5, s6) \<leftarrow> File_Close r3 s5;
     (r6, s7) \<leftarrow> File_Open ''/a'' s6;
     (r7, s8) \<leftarrow> File_Write r6 (replicate 17 1) 17 s7;
     (r8, s9) \<leftarrow> File_Close r6 s8;
     (r9, s10) \<leftarrow> File_Unlink ''/a'' s9;
     (r10, s11) \<leftarrow> File_Open ''/b'' s10;
     (r11, s12) \<leftarrow> File_Write r10 (replicate 1025 0) 1025 s11;
     Some ([r1, r2, r3, r4, r5, r6, r7, r8, r9, r10, r11],
           get_int (disk s11 INODE_TABLE_START_SECTOR) 0,
           get_int (disk s12 INODE_TABLE_START_SECTOR) 0)
   }"

text \<open>
  A fresh volume; \<open>/a\<close> is created and opened three times. The result is the three
  descriptors, the table entry of the third one, the return value and \<open>osErrno\<close> of
  \<open>File_Read\<close> and of \<open>File_Write\<close> on the third descriptor, and the return value and
  \<open>osErrno\<close> of \<open>File_Read\<close> on descriptor 1 after the first \<open>File_Open\<close> only, when
  entry 1 of the table is free.
\<close>

definition bad_fd_scenario ::
  "(int \<times> int \<times> int \<times> open_file_t \<times> int \<times> os_error \<times> int \<times> os_error \<times> int \<times> os_error) option" where
  "bad_fd_scenario = do {
     (r0, s1) \<leftarrow> FS_Boot Load_No_File initial_state;
     (r1, s2) \<leftarrow> File_Create ''/a'' s1;
     (fd0, s3) \<leftarrow> File_Open ''/a'' s2;
     (fd1, s4) \<leftarrow> File_Open ''/a'' s3;
     (fd2, s5) \<leftarrow> File_Open ''/a'' s4;
     (rr, buffer, s6) \<leftarrow> File_Read fd2 [0] 1 s5;
     (rw, s7) \<leftarrow> File_Write fd2 [0] 1 s5;
     (rf, buffer', s8) \<leftarrow> File_Read 1 [0] 1 s3;
     Some (fd0, fd1, fd2, open_files s5 ! nat fd2, rr, osErrno s6, rw, osErrno s7,
           rf, osErrno s8)
   }"

text \<open>
  A fresh volume with the file \<open>/a\<close>: the root directory has one entry slot.
\<close>

definition one_entry_state :: "fs option" where
  "one_entry_state = do {
     (r0, s1) \<leftarrow> FS_Boot Load_No_File initial_state;
     (r1, s2) \<leftarrow> File_Create ''/a'' s1;
     Some s2
   }"

text \<open>
  \<open>Dir_Read\<close> of the root directory of that volume into a buffer of 20 bytes, with the
  \<open>size\<close> argument \<open>c\<close>. The result is the return value, the buffer and \<open>osErrno\<close>.
\<close>

definition dir_read_scenario :: "int \<Rightarrow> (int \<times> byte list \<times> os_error) option" where
  "dir_read_scenario c = do {
     s \<leftarrow> one_entry_state;
     (r, buffer, s') \<leftarrow> Dir_Read ''/'' (replicate 20 0) c s;
     Some (r, buffer, osErrno s')
   }"

text \<open>
  A fresh volume; \<open>/a\<close> and the directory \<open>/d\<close> are created, 18 bytes are written to
  \<open>/a\<close>, \<open>/a\<close> is unlinked, \<open>/b\<close> is created and 513 zero bytes are written to it. The
  result is the return values of the nine calls after \<open>FS_Boot\<close>, and bit 0 of the inode
  bitmap before and after the last call.
\<close>

definition root_bit_scenario :: "(int list \<times> bool \<times> bool) option" where
  "root_bit_scenario = do {
     (r0, s1) \<leftarrow> FS_Boot Load_No_File initial_state;
     (r1, s2) \<leftarrow> File_Create ''/a'' s1;
     (r2, s3) \<leftarrow> Dir_Create ''/d'' s2;
     (r3, s4) \<leftarrow> File_Open ''/a'' s3;
     (r4, s5) \<leftarrow> File_Write r3 (replicate 18 1) 18 s4;
     (r5, s6) \<leftarrow> File_Close r3 s5;
     (r6, s7) \<leftarrow> File_Unlink ''/a'' s6;
     (r7, s8) \<leftarrow> File_Create ''/b'' s7;
     (r8, s9) \<leftarrow> File_Open ''/b'' s8;
     (r9, s10) \<leftarrow> File_Write r8 (replicate 513 0) 513 s9;
     Some ([r1, r2, r3, r4, r5, r6, r7, r8, r9],
           bitmap_bit (disk s9) INODE_BITMAP_START_SECTOR 0,
           bitmap_bit (disk s10) INODE_BITMAP_START_SECTOR 0)
   }"

text \<open>
  An inode bitmap whose first byte is full: the bits of \<open>INODE_BITMAP_SIZE = 8\<close> inodes are
  set and the first zero bit is bit 8.
\<close>

definition full_byte_bitmap_disk :: disk where
  "full_byte_bitmap_disk = empty_disk(1 := 0xFF # replicate 511 0)"

text \<open>The volume \<open>full_dir_disk\<close> with the file of inode 1 open at descriptor 0.\<close>

definition one_open_state :: fs where
  "one_open_state =
     \<lparr>disk = full_dir_disk,
      open_files = \<lparr>f_inode = 1, f_size = 0, f_pos = 0\<rparr> # replicate 255 free_entry,
      osErrno = E_NONE\<rparr>"

section \<open>Evaluation\<close>

text \<open>
  The loops over the bytes of a sector are evaluated through their closed forms, and a
  sector is kept as a list of explicit bytes and \<open>replicate\<close> blocks.
\<close>

lemmas layout_defs =
  SECTOR_SIZE_def TOTAL_SECTORS_def MAX_FILES_def MAX_SECTORS_PER_FILE_def
  SUPERBLOCK_START_SECTOR_def OS_MAGIC_def INODE_BITMAP_START_SECTOR_def INODE_BITMAP_SIZE_def
  INODE_BITMAP_SECTORS_def SECTOR_BITMAP_START_SECTOR_def SECTOR_BITMAP_SIZE_def
  SECTOR_BITMAP_SECTORS_def INODE_TABLE_START_SECTOR_def sizeof_inode_t_def
  INODES_PER_SECTOR_def INODE_TABLE_SECTORS_def DATABLOCK_START_SECTOR_def MAX_PATH_def
  MAX_NAME_def MAX_OPEN_FILES_def sizeof_dirent_t_def DIRENTS_PER_SECTOR_def

lemma fill_bytes_eq:
  "0 \<le> i \<Longrightarrow> i \<le> hi \<Longrightarrow> hi \<le> int (length buf) \<Longrightarrow>
   fill_bytes i hi v buf = Some (take (nat i) buf @ replicate (nat (hi - i)) v @ drop (nat hi) buf)"
proof (induction i hi v buf rule: fill_bytes.induct)
  case (1 i hi v buf)
  show ?case
  proof (cases "i < hi")
    case False
    with 1 have "i = hi" by simp
    then show ?thesis by (simp add: fill_bytes.simps)
  next
    case True
    have ib: "in_buf i 1 buf" using True 1 by (simp add: in_buf_def)
    have step: "fill_bytes i hi v buf = fill_bytes (i + 1) hi v (buf[nat i := v])"
      using True ib by (subst fill_bytes.simps) simp
    have ih: "fill_bytes (i + 1) hi v (buf[nat i := v]) =
        Some (take (nat (i + 1)) (buf[nat i := v]) @ replicate (nat (hi - (i + 1))) v
              @ drop (nat hi) (buf[nat i := v]))"
      using 1 True ib by (intro "1.IH") auto
    have n1: "nat (i + 1) = Suc (nat i)" using 1 by (simp add: nat_add_distrib)
    have lt: "nat i < length buf" using 1 True by linarith
    have t: "take (nat (i + 1)) (buf[nat i := v]) = take (nat i) buf @ [v]"
      using lt by (simp add: n1 take_Suc_conv_app_nth)
    have d: "drop (nat hi) (buf[nat i := v]) = drop (nat hi) buf"
      using True 1 by simp
    have r: "replicate (nat (hi - i)) v = v # replicate (nat (hi - (i + 1))) v"
    proof -
      have "nat (hi - i) = Suc (nat (hi - (i + 1)))" using True by linarith
      then show ?thesis by simp
    qed
    show ?thesis by (simp add: step ih t d r)
  qed
qed

lemma upd_replicate:
  "i < n \<Longrightarrow> (replicate n x)[i := y] = replicate i x @ y # replicate (n - Suc i) x"
  by (simp add: list_eq_iff_nth_eq nth_append nth_Cons')

lemma upd_Cons': "(x # xs)[i := y] = (if i = 0 then y # xs else x # xs[i - 1 := y])"
  by (cases i) auto

lemmas list_eval = upd_replicate upd_Cons' list_update_append nth_Cons' take_Cons' drop_Cons'
  nth_append

lemmas fs_eval = layout_defs tdiv_def tmod_def size_t_of_def int_of_def sgn_c_def Disk_Read_def
  Disk_Write_def Disk_Write_ignored_def zero_sector_def empty_disk_def encode_int_def in_buf_def
  get_bytes_def put_bytes_def get_int_def set_int_def memset0_def memcpy_def write_sectors.simps
  fill_bytes_eq bits_init_def bitmap_init_def format_inode_table.simps free_entry_def Let_def
  list_eval bits_unused_def scan_bits.simps scan_bytes.simps scan_sectors.simps
  bitmap_first_unused_def bitmap_reset_def legal_char_def illegal_filename_def
  find_in_sector.simps find_child_loop.simps find_child_inode_def follow_path_def
  inode_sector_of_def inode_slot_of_def asserted_offset_def strncpy_name_def add_inode_entry_def
  add_inode_parent_def add_inode_def zero_matching_entry.simps remove_scan_full.simps
  remove_inode_finish_def remove_inode_search_def remove_inode_def is_file_open_from.simps
  is_file_open_def new_file_fd_from.simps new_file_fd_def table_entry_def check_magic_def
  create_file_or_directory_def File_Create_def Dir_Create_def unlink_free_sectors.simps
  File_Unlink_def File_Open_def file_read_loop.simps File_Read_def write_alloc_loop.simps
  file_write_loop.simps File_Write_def File_Seek_def File_Close_def Dir_Unlink_def Dir_Size_def
  dir_read_loop.simps Dir_Read_def FS_Boot_def initial_state_def bitmap_bit_def

section \<open>Claims settled by running the code\<close>

text \<open>
  C1. The claim: for every byte count \<open>k\<close> up to the maximal file size, writing \<open>k\<close> bytes
  to a fresh file, seeking to 0 and reading \<open>k\<close> bytes delivers the bytes written. The
  code does not do so for \<open>k = 513\<close>: every pass of the loop of \<open>File_Read\<close> copies to the
  start of the caller's buffer, so the byte of the second sector lands on byte 0 and
  byte 512 is never written. All five calls succeed and \<open>File_Read\<close> returns 513, but
  the buffer holds 2, then 511 times 1, then its old content 0, and not 512 times 1,
  then 2.
\<close>

theorem File_Read_second_sector_overwrites_first:
  "read_back_scenario = Some (0, 0, 513, 0, 513, 2 # replicate 511 1 @ [0])"
  by (simp add: read_back_scenario_def fs_eval)

text \<open>
  C2. The claim: \<open>remove_inode\<close> scans the full directory sectors and then the partial
  trailing one, and an entry located in a full sector is found and removed. The code
  leaves the loop over the full sectors at once (\<open>if (!found) break;\<close> with
  \<open>found = 0\<close>): on the volume \<open>full_dir_disk\<close>, whose root directory is one full sector
  with the entry of inode 1 in slot 0 (the \<open>int\<close> at byte 16 of sector 13),
  \<open>remove_inode\<close> fails with -1 and changes nothing.
\<close>

theorem remove_inode_misses_full_sector:
  "get_int (full_dir_disk 13) 16 = Some 1
   \<and> remove_inode 0 0 1 full_dir_disk = Some (-1, full_dir_disk)"
  by (simp add: full_dir_disk_def fs_eval)

text \<open>
  C3. The claim: \<open>File_Unlink\<close> clears the sector-bitmap bits of exactly the data sectors
  of the file and of no other sector. The loop of the code runs over the byte count
  \<open>child->size\<close> and not over the number of sectors: for a file of 2 bytes, with the one
  data sector 14, it also resets the bit of \<open>child->data[1] = 0\<close>, the superblock.
  \<open>File_Unlink\<close> returns 0; the bit of sector 14 goes from set to clear, and so does the
  bit of sector 0.
\<close>

theorem File_Unlink_frees_superblock_sector:
  "unlink_scenario = Some (0, True, False, True, False)"
  by (simp add: unlink_scenario_def fs_eval)

text \<open>
  C4. The claim: across every operation, the size field of a directory never decreases.
  In the scenario every call succeeds (the return values are 0, descriptors and byte
  counts), and the last \<open>File_Write\<close> takes the size field of the root directory from 2
  to 0: \<open>File_Unlink\<close> has reset the sector-bitmap bit of the inode-table sector 3 (the
  value of \<open>child->data[16]\<close>, read past the end of the block list), and \<open>File_Write\<close>
  is given that sector as a data sector.
\<close>

theorem File_Write_decreases_root_directory_size:
  "dir_size_scenario = Some ([0, 0, 0, 3, 0, 0, 17, 0, 0, 0, 1025], Some 2, Some 0)"
  by (simp add: dir_size_scenario_def fs_eval)

text \<open>
  C6. The claim: after \<open>bitmap_init(start, sectorCount, presetBits)\<close> the first
  \<open>presetBits\<close> bits are 1, every other bit of the region is 0 and no sector outside the
  region has been written. For \<open>bitmap_init(1, 1, 1)\<close>, the call of \<open>FS_Boot\<close> for the
  inode bitmap, the code counts one all-zero sector too many (\<open>sgn(b)\<close> is 0 although the
  partial sector exists) and writes sector 2, outside the region, with the byte 0x80 left
  in the buffer. For \<open>bitmap_init(0, 2, 13)\<close> the second sector of the region keeps the
  partial byte 0xF8 of the buffer, so the bits 4104 to 4108 are 1.
\<close>

theorem bitmap_init_writes_past_region:
  "bitmap_init 1 1 1 empty_disk
     = Some (empty_disk(1 := 0x80 # replicate 511 0, 2 := 0x80 # replicate 511 0))
   \<and> bitmap_init 0 2 13 empty_disk
     = Some (empty_disk(0 := 0xFF # 0xF8 # replicate 510 0, 1 := 0 # 0xF8 # replicate 510 0))"
  by (simp add: fs_eval)

text \<open>
  C7. The claim: \<open>File_Read\<close> and \<open>File_Write\<close> fail with \<open>E_BAD_FD\<close> exactly when \<open>fd\<close> is
  not the index of an open entry. The code calls \<open>is_file_open(fd)\<close>, which looks for an
  entry whose inode number is \<open>fd\<close>. After three \<open>File_Open\<close> of inode 1 the descriptors
  are 0, 1 and 2 and entry 2 is open, but no entry has the inode number 2: both calls
  return -1 with \<open>E_BAD_FD\<close>. After the first \<open>File_Open\<close> only, entry 1 is free, but
  entry 0 has the inode number 1: \<open>File_Read\<close> on descriptor 1 returns 0 and sets no error.
\<close>

theorem File_Read_checks_fd_as_inode_number:
  "bad_fd_scenario
     = Some (0, 1, 2, \<lparr>f_inode = 1, f_size = 0, f_pos = 0\<rparr>, -1, E_BAD_FD, -1, E_BAD_FD,
             0, E_NONE)"
  by (simp add: bad_fd_scenario_def fs_eval)

text \<open>
  C9. The claim: in every state reachable from a freshly formatted volume, bit 0 of the
  inode bitmap is set. In the scenario every call succeeds, and the last \<open>File_Write\<close>
  clears the bit: \<open>File_Unlink\<close> of the 18-byte file has reset the sector-bitmap bits of
  sector 0 (\<open>child->data[1]\<close>) and of sector 1 (\<open>child->data[17]\<close>, the type field of the
  next inode, a directory), and \<open>File_Write\<close> is given the inode-bitmap sector 1 as the
  second data sector of \<open>/b\<close>.
\<close>

theorem root_inode_bit_cleared:
  "root_bit_scenario = Some ([0, 0, 0, 18, 0, 0, 0, 0, 513], True, False)"
  by (simp add: root_bit_scenario_def fs_eval)

section \<open>The bitmap allocator beyond its capacity\<close>

lemma bits_unused_nth: "0 \<le> k \<Longrightarrow> k < 8 \<Longrightarrow> bits_unused ! nat k = 2 ^ (7 - nat k)"
proof -
  assume "0 \<le> k" "k < 8"
  then have "k \<in> {0, 1, 2, 3, 4, 5, 6, 7}" by auto
  then show ?thesis by (auto simp: bits_unused_def)
qed

lemma and_bits_unused:
  "0 \<le> k \<Longrightarrow> k < 8 \<Longrightarrow> (b AND bits_unused ! nat k = 0) = (\<not> bit b (7 - nat k))"
  by (simp add: bits_unused_nth and_exp_eq_0_iff_not_bit)

lemma byte_eq_ff: "((b :: byte) = 0xff) = (\<forall>n<8. bit b n)"
proof
  assume "b = 0xff"
  then have "b = - 1" by simp
  then show "\<forall>n<8. bit b n" by simp
next
  assume a: "\<forall>n<8. bit b n"
  have "b = - 1"
    by (rule bit_word_eqI) (use a in simp)
  then show "b = 0xff" by simp
qed

lemma byte_lt_ff: "((b :: byte) < 0xff) = (\<exists>n<8. \<not> bit b n)"
proof -
  have m: "(0xff :: byte) = - 1" by simp
  have "(b < 0xff) = (b \<noteq> 0xff)"
    unfolding m using word_order.not_eq_extremum [of b] by blast
  then show ?thesis by (simp add: byte_eq_ff)
qed

lemma scan_bits_first:
  "0 \<le> k0 \<Longrightarrow> k0 \<le> k \<Longrightarrow> k < 8 \<Longrightarrow> \<not> bit b (7 - nat k)
   \<Longrightarrow> (\<forall>k'. k0 \<le> k' \<and> k' < k \<longrightarrow> bit b (7 - nat k'))
   \<Longrightarrow> scan_bits b k0 = Some k"
proof (induction b k0 rule: scan_bits.induct)
  case (1 b k0)
  show ?case
  proof (cases "k0 = k")
    case True
    then show ?thesis using 1 by (subst scan_bits.simps) (simp add: and_bits_unused)
  next
    case False
    then have lt: "k0 < k" using 1 by simp
    then have set: "bit b (7 - nat k0)" using 1 by simp
    have "scan_bits b k0 = scan_bits b (k0 + 1)"
      using 1 lt set by (subst scan_bits.simps) (simp add: and_bits_unused)
    also have "\<dots> = Some k"
      using 1 lt set by (intro "1.IH") (auto simp: and_bits_unused)
    finally show ?thesis .
  qed
qed

lemma scan_bits_None:
  "0 \<le> k0 \<Longrightarrow> (\<forall>k'. k0 \<le> k' \<and> k' < 8 \<longrightarrow> bit b (7 - nat k')) \<Longrightarrow> scan_bits b k0 = None"
proof (induction b k0 rule: scan_bits.induct)
  case (1 b k0)
  show ?case
  proof (cases "k0 < 8")
    case False
    then show ?thesis by (subst scan_bits.simps) simp
  next
    case True
    then have set: "bit b (7 - nat k0)" using 1 by simp
    have "scan_bits b k0 = scan_bits b (k0 + 1)"
      using 1 True set by (subst scan_bits.simps) (simp add: and_bits_unused)
    also have "\<dots> = None"
      using 1 True set by (intro "1.IH") (auto simp: and_bits_unused)
    finally show ?thesis .
  qed
qed


lemma scan_bytes_first:
  "0 \<le> j0 \<Longrightarrow> j0 \<le> j \<Longrightarrow> j < SECTOR_SIZE
   \<Longrightarrow> (\<forall>j'. j0 \<le> j' \<and> j' < j \<longrightarrow> buf ! nat j' = 0xff)
   \<Longrightarrow> 0 \<le> k \<Longrightarrow> k < 8 \<Longrightarrow> \<not> bit (buf ! nat j) (7 - nat k)
   \<Longrightarrow> (\<forall>k'. 0 \<le> k' \<and> k' < k \<longrightarrow> bit (buf ! nat j) (7 - nat k'))
   \<Longrightarrow> scan_bytes buf j0 = Some (j, k)"
proof (induction buf j0 rule: scan_bytes.induct)
  case (1 buf j0)
  show ?case
  proof (cases "j0 = j")
    case True
    have "7 - nat k < 8" by simp
    then have lt: "buf ! nat j < 0xff"
      using 1(9) unfolding byte_lt_ff by blast
    have sb: "scan_bits (buf ! nat j) 0 = Some k"
      using 1 by (intro scan_bits_first) auto
    show ?thesis using True 1(5) lt sb by (subst scan_bytes.simps) simp
  next
    case False
    then have lt: "j0 < j" using 1 by simp
    then have ff: "buf ! nat j0 = 0xff" using 1 by simp
    have "scan_bytes buf j0 = scan_bytes buf (j0 + 1)"
      using 1 lt ff by (subst scan_bytes.simps) simp
    also have "\<dots> = Some (j, k)"
      using 1(3-) lt ff by (intro "1.IH"(2)) auto
    finally show ?thesis .
  qed
qed

lemma scan_bytes_None:
  "0 \<le> j0 \<Longrightarrow> (\<forall>j'. j0 \<le> j' \<and> j' < SECTOR_SIZE \<longrightarrow> buf ! nat j' = 0xff)
   \<Longrightarrow> scan_bytes buf j0 = None"
proof (induction buf j0 rule: scan_bytes.induct)
  case (1 buf j0)
  show ?case
  proof (cases "j0 < SECTOR_SIZE")
    case False
    then show ?thesis by (subst scan_bytes.simps) simp
  next
    case True
    then have ff: "buf ! nat j0 = 0xff" using 1 by simp
    have "scan_bytes buf j0 = scan_bytes buf (j0 + 1)"
      using True ff by (subst scan_bytes.simps) simp
    also have "\<dots> = None"
      using 1(3-) True ff by (intro "1.IH"(2)) auto
    finally show ?thesis .
  qed
qed

lemma scan_sectors_first:
  "0 \<le> i0 \<Longrightarrow> i0 \<le> i \<Longrightarrow> i < num \<Longrightarrow> 0 \<le> start \<Longrightarrow> start + num \<le> TOTAL_SECTORS
   \<Longrightarrow> (\<forall>i' j'. i0 \<le> i' \<and> i' < i \<and> 0 \<le> j' \<and> j' < SECTOR_SIZE
          \<longrightarrow> d (i' + start) ! nat j' = 0xff)
   \<Longrightarrow> scan_bytes (d (i + start)) 0 = Some (j, k)
   \<Longrightarrow> scan_sectors i0 start num nbits d =
       (if (i * SECTOR_SIZE + j) * 8 + k < nbits then (i * SECTOR_SIZE + j) * 8 + k else -1,
        d(i + start := (d (i + start))[nat j := d (i + start) ! nat j OR bits_unused ! nat k]))"
proof (induction i0 start num nbits d rule: scan_sectors.induct)
  case (1 i0 start num nbits d)
  have rd: "\<And>x. 0 \<le> x \<Longrightarrow> x < num \<Longrightarrow> Disk_Read (x + start) d = Some (d (x + start))"
    using 1(5,6) by (simp add: Disk_Read_def)
  have wr: "\<And>x b. 0 \<le> x \<Longrightarrow> x < num \<Longrightarrow> Disk_Write (x + start) b d = Some (d(x + start := b))"
    using 1(5,6) by (simp add: Disk_Write_def)
  show ?case
  proof (cases "i0 = i")
    case True
    show ?thesis
      using True 1(2-4) 1(8) rd [of i] wr [of i]
      by (subst scan_sectors.simps) (simp add: Let_def)
  next
    case False
    then have lt: "i0 < i" using 1 by simp
    have "scan_bytes (d (i0 + start)) 0 = None"
      using 1(7) lt by (intro scan_bytes_None) auto
    then have "scan_sectors i0 start num nbits d = scan_sectors (i0 + 1) start num nbits d"
      using lt 1(2-4) rd [of i0] by (subst scan_sectors.simps) simp
    also have "\<dots> = (if (i * SECTOR_SIZE + j) * 8 + k < nbits then (i * SECTOR_SIZE + j) * 8 + k else -1,
        d(i + start := (d (i + start))[nat j := d (i + start) ! nat j OR bits_unused ! nat k]))"
      using 1(2-) lt rd [of i0] \<open>scan_bytes (d (i0 + start)) 0 = None\<close>
      by (intro "1.IH") auto
    finally show ?thesis .
  qed
qed



lemma pos_decomp:
  fixes i j k :: int
  assumes "0 \<le> j" "j < 512" "0 \<le> k" "k < 8"
  shows "((i * 512 + j) * 8 + k) div 4096 = i"
    and "((i * 512 + j) * 8 + k) mod 4096 div 8 = j"
    and "((i * 512 + j) * 8 + k) mod 8 = k"
proof -
  have e: "(i * 512 + j) * 8 + k = i * 4096 + (j * 8 + k)" by simp
  have r: "0 \<le> j * 8 + k" "j * 8 + k < 4096" using assms by auto
  have "(i * 4096 + (j * 8 + k)) div 4096 = i + (j * 8 + k) div 4096"
    by (rule div_mult_self3) simp
  then show "((i * 512 + j) * 8 + k) div 4096 = i"
    using r by (simp only: e div_pos_pos_trivial)
  have "(i * 4096 + (j * 8 + k)) mod 4096 = (j * 8 + k) mod 4096"
    by (rule mod_mult_self3)
  then have m: "((i * 512 + j) * 8 + k) mod 4096 = j * 8 + k"
    using r by (simp only: e mod_pos_pos_trivial)
  have "(j * 8 + k) div 8 = j + k div 8"
    by (rule div_mult_self3) simp
  then show "((i * 512 + j) * 8 + k) mod 4096 div 8 = j"
    using assms by (simp only: m div_pos_pos_trivial)
  have "((i * 512 + j) * 8 + k) mod 8 = k mod 8"
    by (rule mod_mult_self3)
  then show "((i * 512 + j) * 8 + k) mod 8 = k"
    using assms by (simp only: mod_pos_pos_trivial)
qed

lemma pos_recomp:
  fixes p :: int
  shows "(p div 4096 * 512 + p mod 4096 div 8) * 8 + p mod 8 = p"
proof -
  define q where "q = p div 4096"
  define r where "r = p mod 4096"
  define s where "s = r div 8"
  define t where "t = r mod 8"
  have 1: "p = q * 4096 + r" unfolding q_def r_def by simp
  have 2: "r = s * 8 + t" unfolding s_def t_def by simp
  have "p mod 4096 mod 8 = p mod 8"
    by (rule mod_mod_cancel) simp
  then have 3: "p mod 8 = t" unfolding t_def r_def by simp
  have "(q * 512 + s) * 8 + t = p"
    using 1 2 by (simp add: algebra_simps)
  then show ?thesis
    unfolding 3 unfolding q_def s_def r_def .
qed


lemma scan_sectors_result:
  "fst (scan_sectors i start num nbits d) < 0 \<or> fst (scan_sectors i start num nbits d) < nbits"
proof (induction i start num nbits d rule: scan_sectors.induct)
  case (1 i start num nbits d)
  show ?case
    using "1.IH"
    by (subst (1 2) scan_sectors.simps)
       (auto simp: Let_def split: option.splits prod.splits)
qed

lemma bitmap_bit_byte_ff:
  assumes first: "\<forall>q. 0 \<le> q \<and> q < pos \<longrightarrow> bitmap_bit d start q"
    and i: "0 \<le> i" and j: "0 \<le> j" "j < 512"
    and below: "(i * 512 + j) * 8 + 8 \<le> pos"
  shows "d (i + start) ! nat j = 0xff"
proof -
  have "\<forall>n<8. bit (d (i + start) ! nat j) n"
  proof (intro allI impI)
    fix n :: nat
    assume n: "n < 8"
    define k where "k = 7 - int n"
    have k: "0 \<le> k" "k < 8" using n by (auto simp: k_def)
    have q: "0 \<le> (i * 512 + j) * 8 + k" "(i * 512 + j) * 8 + k < pos"
      using i j k below by auto
    have "bitmap_bit d start ((i * 512 + j) * 8 + k)"
      using first q by blast
    then have "bit (d (start + i) ! nat j) (7 - nat k)"
      unfolding bitmap_bit_def SECTOR_SIZE_def
      using pos_decomp [OF j k, of i] by simp
    moreover have "7 - nat k = n" using n by (simp add: k_def)
    ultimately show "bit (d (i + start) ! nat j) n" by (simp add: add.commute)
  qed
  then show ?thesis by (simp add: byte_eq_ff)
qed


lemma bitmap_first_unused_at:
  assumes wf: "wf_disk d"
    and range: "0 \<le> start" "start + num \<le> TOTAL_SECTORS"
    and pos: "0 \<le> pos" "pos < num * SECTOR_SIZE * 8"
    and zero: "\<not> bitmap_bit d start pos"
    and first: "\<forall>q. 0 \<le> q \<and> q < pos \<longrightarrow> bitmap_bit d start q"
  shows "bitmap_first_unused start num nbits d =
           (if pos < nbits then pos else -1,
            d(start + pos div (SECTOR_SIZE * 8) :=
                (d (start + pos div (SECTOR_SIZE * 8)))
                  [nat (pos mod (SECTOR_SIZE * 8) div 8) :=
                     d (start + pos div (SECTOR_SIZE * 8)) ! nat (pos mod (SECTOR_SIZE * 8) div 8)
                     OR bits_unused ! nat (pos mod 8)]))"
proof -
  define i where "i = pos div 4096"
  define j where "j = pos mod 4096 div 8"
  define k where "k = pos mod 8"
  have p: "(i * 512 + j) * 8 + k = pos"
    unfolding i_def j_def k_def by (rule pos_recomp)
  have i: "0 \<le> i" "i < num"
    using pos unfolding i_def SECTOR_SIZE_def by linarith+
  have j: "0 \<le> j" "j < 512" unfolding j_def by linarith+
  have k: "0 \<le> k" "k < 8" unfolding k_def by simp_all
  have A: "\<forall>i' j'. 0 \<le> i' \<and> i' < i \<and> 0 \<le> j' \<and> j' < SECTOR_SIZE
             \<longrightarrow> d (i' + start) ! nat j' = 0xff"
  proof (intro allI impI)
    fix i' j' :: int
    assume a: "0 \<le> i' \<and> i' < i \<and> 0 \<le> j' \<and> j' < SECTOR_SIZE"
    then have "(i' * 512 + j') * 8 + 8 \<le> pos"
      using p j k by (simp add: SECTOR_SIZE_def)
    then show "d (i' + start) ! nat j' = 0xff"
      using a by (intro bitmap_bit_byte_ff [OF first]) (auto simp: SECTOR_SIZE_def)
  qed
  have B: "\<forall>j'. 0 \<le> j' \<and> j' < j \<longrightarrow> d (i + start) ! nat j' = 0xff"
  proof (intro allI impI)
    fix j' :: int
    assume a: "0 \<le> j' \<and> j' < j"
    then have "(i * 512 + j') * 8 + 8 \<le> pos"
      using p k by simp
    then show "d (i + start) ! nat j' = 0xff"
      using a i j by (intro bitmap_bit_byte_ff [OF first]) auto
  qed
  have bb: "bitmap_bit d start ((i * 512 + j) * 8 + k') = bit (d (i + start) ! nat j) (7 - nat k')"
    if "0 \<le> k'" "k' < 8" for k'
    unfolding bitmap_bit_def SECTOR_SIZE_def
    using pos_decomp [OF j that, of i] by (simp add: add.commute)
  have C: "\<forall>k'. 0 \<le> k' \<and> k' < k \<longrightarrow> bit (d (i + start) ! nat j) (7 - nat k')"
  proof (intro allI impI)
    fix k' :: int
    assume a: "0 \<le> k' \<and> k' < k"
    then have "0 \<le> (i * 512 + j) * 8 + k'" "(i * 512 + j) * 8 + k' < pos"
      using p i j by auto
    then have "bitmap_bit d start ((i * 512 + j) * 8 + k')" using first by blast
    then show "bit (d (i + start) ! nat j) (7 - nat k')"
      using bb [of k'] a k by simp
  qed
  have D: "\<not> bit (d (i + start) ! nat j) (7 - nat k)"
    using zero bb [OF k] p by simp
  have sb: "scan_bytes (d (i + start)) 0 = Some (j, k)"
    using j k B C D by (intro scan_bytes_first) (auto simp: SECTOR_SIZE_def)
  have "scan_sectors 0 start num nbits d =
       (if (i * SECTOR_SIZE + j) * 8 + k < nbits then (i * SECTOR_SIZE + j) * 8 + k else -1,
        d(i + start := (d (i + start))[nat j := d (i + start) ! nat j OR bits_unused ! nat k]))"
    using i range A sb by (intro scan_sectors_first) auto
  then show ?thesis
    unfolding bitmap_first_unused_def
    using p by (simp add: SECTOR_SIZE_def i_def j_def k_def add.commute)
qed

lemma bitmap_bit_after_set:
  assumes wf: "wf_disk d" and pos: "0 \<le> pos"
  shows "bitmap_bit
           (d(start + pos div (SECTOR_SIZE * 8) :=
                (d (start + pos div (SECTOR_SIZE * 8)))
                  [nat (pos mod (SECTOR_SIZE * 8) div 8) :=
                     d (start + pos div (SECTOR_SIZE * 8)) ! nat (pos mod (SECTOR_SIZE * 8) div 8)
                     OR bits_unused ! nat (pos mod 8)]))
           start pos"
proof -
  have len: "nat (pos mod (SECTOR_SIZE * 8) div 8) < length (d (start + pos div (SECTOR_SIZE * 8)))"
    using wf unfolding wf_disk_def SECTOR_SIZE_def by simp
  have k: "0 \<le> pos mod 8" "pos mod 8 < 8" by simp_all
  have t: "7 - nat (pos mod 8) < 8" by arith
  show ?thesis
    unfolding bitmap_bit_def
    using len k t by (simp add: bits_unused_nth bit_or_iff bit_exp_iff)
qed

text \<open>
  C5. When the first zero bit of the bitmap lies at a position \<open>pos\<close> that is not below
  \<open>nbits\<close>, \<open>bitmap_first_unused\<close> still sets that bit in the sector that contains it and
  writes the sector to the device, and returns -1; and whenever it returns a position,
  that position is below \<open>nbits\<close>. The bitmap is \<open>num\<close> sectors of the device from
  \<open>start\<close> on.
\<close>

theorem bitmap_first_unused_beyond_capacity:
  assumes "wf_disk d"
    and "0 \<le> start" and "start + num \<le> TOTAL_SECTORS"
    and "0 \<le> pos" and "pos < num * SECTOR_SIZE * 8"
    and "\<not> bitmap_bit d start pos"
    and "\<forall>q. 0 \<le> q \<and> q < pos \<longrightarrow> bitmap_bit d start q"
    and "nbits \<le> pos"
  shows "bitmap_first_unused start num nbits d =
           (-1, d(start + pos div (SECTOR_SIZE * 8) :=
                  (d (start + pos div (SECTOR_SIZE * 8)))
                    [nat (pos mod (SECTOR_SIZE * 8) div 8) :=
                       d (start + pos div (SECTOR_SIZE * 8)) ! nat (pos mod (SECTOR_SIZE * 8) div 8)
                       OR bits_unused ! nat (pos mod 8)]))
         \<and> bitmap_bit (snd (bitmap_first_unused start num nbits d)) start pos
         \<and> (0 \<le> fst (bitmap_first_unused start2 num2 nbits2 d2)
              \<longrightarrow> fst (bitmap_first_unused start2 num2 nbits2 d2) < nbits2)"
proof -
  have r: "bitmap_first_unused start num nbits d =
           (-1, d(start + pos div (SECTOR_SIZE * 8) :=
                  (d (start + pos div (SECTOR_SIZE * 8)))
                    [nat (pos mod (SECTOR_SIZE * 8) div 8) :=
                       d (start + pos div (SECTOR_SIZE * 8)) ! nat (pos mod (SECTOR_SIZE * 8) div 8)
                       OR bits_unused ! nat (pos mod 8)]))"
    using bitmap_first_unused_at [OF assms(1-7), of nbits] assms(8) by simp
  have b: "bitmap_bit (snd (bitmap_first_unused start num nbits d)) start pos"
    unfolding r snd_conv by (rule bitmap_bit_after_set [OF assms(1) assms(4)])
  have g: "0 \<le> fst (bitmap_first_unused start2 num2 nbits2 d2)
              \<longrightarrow> fst (bitmap_first_unused start2 num2 nbits2 d2) < nbits2"
    using scan_sectors_result [of 0 start2 num2 nbits2 d2]
    by (auto simp: bitmap_first_unused_def)
  show ?thesis using r b g by blast
qed

theorem bitmap_first_unused_beyond_capacity_witness:
  "wf_disk full_byte_bitmap_disk
   \<and> (0::int) \<le> 1 \<and> (1::int) + 1 \<le> TOTAL_SECTORS \<and> (0::int) \<le> 8 \<and> 8 < 1 * SECTOR_SIZE * 8
   \<and> \<not> bitmap_bit full_byte_bitmap_disk 1 8
   \<and> list_all (bitmap_bit full_byte_bitmap_disk 1) [0, 1, 2, 3, 4, 5, 6, 7]
   \<and> INODE_BITMAP_SIZE \<le> 8
   \<and> bitmap_first_unused 1 1 INODE_BITMAP_SIZE full_byte_bitmap_disk
        = (-1, empty_disk(1 := 0xFF # 0x80 # replicate 510 0))
   \<and> bitmap_bit (snd (bitmap_first_unused 1 1 INODE_BITMAP_SIZE full_byte_bitmap_disk)) 1 8
   \<and> 0 \<le> fst (bitmap_first_unused 1 1 INODE_BITMAP_SIZE (empty_disk(1 := 0x80 # replicate 511 0)))
   \<and> fst (bitmap_first_unused 1 1 INODE_BITMAP_SIZE (empty_disk(1 := 0x80 # replicate 511 0)))
        < INODE_BITMAP_SIZE"
proof -
  have h1: "wf_disk full_byte_bitmap_disk"
    by (simp add: wf_disk_def full_byte_bitmap_disk_def empty_disk_def zero_sector_def
        SECTOR_SIZE_def)
  have h2: "(0::int) \<le> 1" "(1::int) + 1 \<le> TOTAL_SECTORS" "(0::int) \<le> 8"
    "8 < 1 * SECTOR_SIZE * 8" "INODE_BITMAP_SIZE \<le> 8"
    by (simp_all add: layout_defs)
  have h3: "\<not> bitmap_bit full_byte_bitmap_disk 1 8"
    by (simp add: bitmap_bit_def full_byte_bitmap_disk_def SECTOR_SIZE_def)
  have h4: "\<forall>q. 0 \<le> q \<and> q < 8 \<longrightarrow> bitmap_bit full_byte_bitmap_disk 1 q"
  proof (intro allI impI)
    fix q :: int
    assume "0 \<le> q \<and> q < 8"
    then have "q \<in> {0, 1, 2, 3, 4, 5, 6, 7}" by auto
    then show "bitmap_bit full_byte_bitmap_disk 1 q"
      by (auto simp: bitmap_bit_def full_byte_bitmap_disk_def SECTOR_SIZE_def)
  qed
  have e: "0 \<le> fst (bitmap_first_unused 1 1 INODE_BITMAP_SIZE (empty_disk(1 := 0x80 # replicate 511 0)))"
    by (simp add: fs_eval)
  have h5: "list_all (bitmap_bit full_byte_bitmap_disk 1) [0, 1, 2, 3, 4, 5, 6, 7]"
    using h4 by simp
  show ?thesis
    using h1 h2 h3 h5 e
      bitmap_first_unused_beyond_capacity [OF h1 h2(1,2,3,4) h3 h4 h2(5),
        of 1 1 INODE_BITMAP_SIZE "empty_disk(1 := 0x80 # replicate 511 0)"]
    by (simp add: full_byte_bitmap_disk_def fs_eval)
qed

section \<open>Closing a file\<close>

text \<open>
  C10. For a descriptor \<open>fd\<close> that is the index of an open entry, \<open>File_Close\<close> returns
  0; the new state is the old one with the inode number of entry \<open>fd\<close> set to 0, so
  every other entry, the cached size and cursor of the entry, \<open>osErrno\<close> and the device
  are unchanged. The same holds with any other content \<open>d\<close> of the device: the function
  neither reads nor writes it, and the cached size is not written to the inode.
\<close>

theorem File_Close_frame:
  assumes "0 \<le> fd" and "fd < MAX_OPEN_FILES" and "0 < f_inode (open_files s ! nat fd)"
  shows "File_Close fd s
           = Some (0, s\<lparr>open_files := (open_files s)
                        [nat fd := (open_files s ! nat fd)\<lparr>f_inode := 0\<rparr>]\<rparr>)
         \<and> File_Close fd (s\<lparr>disk := d\<rparr>)
           = Some (0, s\<lparr>disk := d, open_files := (open_files s)
                        [nat fd := (open_files s ! nat fd)\<lparr>f_inode := 0\<rparr>]\<rparr>)"
  using assms by (simp add: File_Close_def table_entry_def)

theorem File_Close_frame_witness:
  "(0::int) \<le> 0 \<and> 0 < MAX_OPEN_FILES \<and> 0 < f_inode (open_files one_open_state ! nat 0)
   \<and> File_Close 0 one_open_state
       = Some (0, one_open_state\<lparr>open_files := free_entry # replicate 255 free_entry\<rparr>)
   \<and> File_Close 0 (one_open_state\<lparr>disk := empty_disk\<rparr>)
       = Some (0, one_open_state\<lparr>disk := empty_disk,
                    open_files := free_entry # replicate 255 free_entry\<rparr>)"
proof -
  have h: "(0::int) \<le> 0" "0 < MAX_OPEN_FILES" "0 < f_inode (open_files one_open_state ! nat 0)"
    by (simp_all add: MAX_OPEN_FILES_def one_open_state_def)
  show ?thesis
    using h File_Close_frame [OF h, of empty_disk]
    by (simp add: one_open_state_def free_entry_def)
qed

section \<open>Directory enumeration\<close>

lemma chunks_take:
  "concat (map (\<lambda>t. take m (drop (m * t) xs)) [0..<k]) = take (m * k) xs"
proof (induction k)
  case 0
  then show ?case by simp
next
  case (Suc k)
  have e: "m * Suc k = m * k + m" by simp
  have "concat (map (\<lambda>t. take m (drop (m * t) xs)) [0..<Suc k])
      = concat (map (\<lambda>t. take m (drop (m * t) xs)) [0..<k]) @ take m (drop (m * k) xs)"
    by simp
  also have "\<dots> = take (m * k) xs @ take m (drop (m * k) xs)"
    by (simp only: Suc)
  also have "\<dots> = take (m * k + m) xs"
    by (rule take_add [symmetric])
  finally show ?case by (simp only: e)
qed

lemma nat_slot_offset: "nat (int a * 20) = 20 * a"
proof -
  have "int a * 20 = int (20 * a)" by simp
  then show ?thesis by (simp only: nat_int)
qed

lemma dir_slot_eq:
  "dir_slot d secs j = take 20 (drop (20 * (j mod 25)) (d (secs ! (j div 25))))"
  by (simp add: dir_slot_def get_bytes_def DIRENTS_PER_SECTOR_def SECTOR_SIZE_def
      sizeof_dirent_t_def MAX_NAME_def nat_slot_offset)

lemma dir_slot_in_sector:
  assumes "t < 25"
  shows "dir_slot d secs (25 * i + t) = take 20 (drop (20 * t) (d (secs ! i)))"
  using assms by (simp add: dir_slot_eq)

lemma dir_slots_sector:
  assumes "t \<le> 25"
  shows "concat (map (dir_slot d secs) [25 * i..<25 * i + t]) = take (20 * t) (d (secs ! i))"
proof -
  have "map (\<lambda>x. x + 25 * i) [0..<t] = [25 * i..<t + 25 * i]"
    by (simp add: map_add_upt)
  then have "[25 * i..<25 * i + t] = map (\<lambda>x. 25 * i + x) [0..<t]"
    by (simp add: add.commute)
  then have "map (dir_slot d secs) [25 * i..<25 * i + t]
      = map (\<lambda>x. dir_slot d secs (25 * i + x)) [0..<t]"
    by simp
  also have "\<dots> = map (\<lambda>x. take 20 (drop (20 * x) (d (secs ! i)))) [0..<t]"
    using assms by (intro map_cong) (auto simp: dir_slot_in_sector)
  finally show ?thesis by (simp add: chunks_take)
qed

lemma dir_slots_add:
  "dir_slots d secs (a + b) = dir_slots d secs a @ concat (map (dir_slot d secs) [a..<a + b])"
proof -
  have "[0..<a + b] = [0..<a] @ [a..<a + b]"
    using upt_add_eq_append [of 0 a b] by simp
  then show ?thesis by (simp only: dir_slots_def map_append concat_append)
qed

lemma length_dir_slot:
  assumes "wf_disk d"
  shows "length (dir_slot d secs j) = 20"
proof -
  have "j mod 25 \<le> 24" by simp
  then have "20 * (j mod 25) \<le> 480" by simp
  moreover have "length (d (secs ! (j div 25))) = 512"
    using assms by (simp add: wf_disk_def SECTOR_SIZE_def)
  ultimately show ?thesis by (simp add: dir_slot_eq)
qed

lemma length_dir_slots:
  assumes "wf_disk d"
  shows "length (dir_slots d secs n) = 20 * n"
  by (induction n) (simp_all add: dir_slots_def length_dir_slot [OF assms])


lemma int_of_id: "- (2 ^ 31) \<le> x \<Longrightarrow> x < 2 ^ 31 \<Longrightarrow> int_of x = x"
  by (simp add: int_of_def mod_pos_pos_trivial)

lemma size_t_of_id: "0 \<le> x \<Longrightarrow> x < 2 ^ 64 \<Longrightarrow> size_t_of x = x"
  by (simp add: size_t_of_def mod_pos_pos_trivial)

lemma int_of_range: "- (2 ^ 31) \<le> int_of x \<and> int_of x < 2 ^ 31"
proof -
  have "0 \<le> (x + 2 ^ 31) mod 2 ^ 32" "(x + 2 ^ 31) mod 2 ^ 32 < 2 ^ 32"
    by simp_all
  then show ?thesis unfolding int_of_def by simp
qed

lemma get_int_range: "get_int buf p = Some v \<Longrightarrow> - (2 ^ 31) \<le> v \<and> v < 2 ^ 31"
  using int_of_range by (auto simp: get_int_def split: if_splits)

lemma block_list_nth:
  assumes "block_list ibuf off secs" and "i < length secs"
  shows "get_int ibuf (off + 8 + 4 * int i) = Some (secs ! i)"
    and "0 \<le> secs ! i" and "secs ! i < TOTAL_SECTORS"
  using assms by (auto simp: block_list_def list_all_iff)

lemma memcpy_at_end:
  assumes "length S = nat p" and "0 \<le> p" and "0 \<le> n" and "nat n \<le> length R"
    and "nat n \<le> length src"
  shows "memcpy (S @ R) p src 0 n = Some (S @ take (nat n) src @ drop (nat n) R)"
proof -
  have a: "in_buf p n (S @ R)" "in_buf 0 n src"
    using assms by (auto simp: in_buf_def)
  have b: "length (take (nat n) src) = nat n" using assms by simp
  show ?thesis
    using assms by (simp add: memcpy_def a put_bytes_def get_bytes_def b)
qed

lemma dir_read_loop_full:
  assumes wf: "wf_disk d" and bl: "block_list ibuf off secs"
    and B: "B \<le> length secs" and room: "500 * B \<le> length buffer0"
  shows "i \<le> B \<Longrightarrow>
         dir_read_loop ibuf off (int B) (int i) (500 * int i)
           (dir_slots d secs (25 * i) @ drop (500 * i) buffer0) d
         = Some (True, dir_slots d secs (25 * B) @ drop (500 * B) buffer0, 500 * int B)"
proof (induction "B - i" arbitrary: i)
  case 0
  then have "i = B" by simp
  then show ?case by (subst dir_read_loop.simps) simp
next
  case (Suc k)
  then have lt: "i < B" by simp
  then have il: "i < length secs" using B by simp
  have g: "get_int ibuf (off + 8 + 4 * int i) = Some (secs ! i)"
    by (rule block_list_nth(1) [OF bl il])
  have r: "Disk_Read (secs ! i) d = Some (d (secs ! i))"
    using block_list_nth(2,3) [OF bl il] by (simp add: Disk_Read_def)
  have ls: "length (d (secs ! i)) = 512"
    using wf by (simp add: wf_disk_def SECTOR_SIZE_def)
  have lS: "length (dir_slots d secs (25 * i)) = nat (500 * int i)"
    by (simp add: length_dir_slots [OF wf] nat_mult_distrib)
  have lR: "nat (500 :: int) \<le> length (drop (500 * i) buffer0)"
    using room lt by simp
  have m: "memcpy (dir_slots d secs (25 * i) @ drop (500 * i) buffer0) (500 * int i)
             (d (secs ! i)) 0 500
           = Some (dir_slots d secs (25 * i) @ take (nat 500) (d (secs ! i))
                   @ drop (nat 500) (drop (500 * i) buffer0))"
    using lS lR ls by (intro memcpy_at_end) auto
  have t: "take 500 (d (secs ! i)) = concat (map (dir_slot d secs) [25 * i..<25 * i + 25])"
    using dir_slots_sector [of 25 d secs i] by simp
  have n: "dir_slots d secs (25 * i) @ take (nat 500) (d (secs ! i))
             @ drop (nat 500) (drop (500 * i) buffer0)
           = dir_slots d secs (25 * Suc i) @ drop (500 * Suc i) buffer0"
    using dir_slots_add [of d secs "25 * i" 25] t by (simp add: add.commute)
  have ih: "dir_read_loop ibuf off (int B) (int (Suc i)) (500 * int (Suc i))
           (dir_slots d secs (25 * Suc i) @ drop (500 * Suc i) buffer0) d
         = Some (True, dir_slots d secs (25 * B) @ drop (500 * B) buffer0, 500 * int B)"
    using Suc lt by (intro Suc.hyps(1)) auto
  have e: "int i + 1 = int (Suc i)" "500 * int i + 500 = 500 * int (Suc i)" by simp_all
  have c500: "DIRENTS_PER_SECTOR * sizeof_dirent_t = 500"
    by (simp add: DIRENTS_PER_SECTOR_def SECTOR_SIZE_def sizeof_dirent_t_def MAX_NAME_def)
  have "dir_read_loop ibuf off (int B) (int i) (500 * int i)
           (dir_slots d secs (25 * i) @ drop (500 * i) buffer0) d
        = (case memcpy (dir_slots d secs (25 * i) @ drop (500 * i) buffer0) (500 * int i)
                  (d (secs ! i)) 0 500 of
             None \<Rightarrow> None
           | Some buffer' \<Rightarrow>
               dir_read_loop ibuf off (int B) (int i + 1)
                 (500 * int i + DIRENTS_PER_SECTOR * sizeof_dirent_t) buffer' d)"
    using lt g r
    by (subst dir_read_loop.simps)
       (simp add: DIRENTS_PER_SECTOR_def SECTOR_SIZE_def sizeof_dirent_t_def MAX_NAME_def)
  also have "\<dots> = dir_read_loop ibuf off (int B) (int (Suc i)) (500 * int (Suc i))
           (dir_slots d secs (25 * Suc i) @ drop (500 * Suc i) buffer0) d"
    by (simp only: m n e c500 option.case)
  also have "\<dots> = Some (True, dir_slots d secs (25 * B) @ drop (500 * B) buffer0, 500 * int B)"
    by (rule ih)
  finally show ?case .
qed

text \<open>
  \<open>Dir_Read\<close> with a \<open>size\<close> argument that is not negative. The path resolves to a
  directory whose inode has the entry-slot count \<open>n\<close> and whose block list \<open>secs\<close> holds
  the sectors of these slots. For every \<open>size\<close> argument \<open>c\<close> that is a non-negative \<open>int\<close>
  and not larger than the buffer, \<open>Dir_Read\<close> fails with \<open>E_BUFFER_TOO_SMALL\<close>, leaving the
  buffer as it is, exactly when \<open>c < n * 20\<close>; otherwise it returns \<open>n\<close>, and the buffer
  starts with all \<open>n\<close> entry slots, zeroed ones included, in on-disk order, the rest of it
  unchanged.
\<close>

theorem Dir_Read_nonnegative_capacity:
  assumes wf: "wf_disk (disk s)"
    and path: "follow_path path (disk s) = Some (Path_Found parent_node child_node name)"
    and parent: "0 \<le> parent_node"
    and rd: "Disk_Read (inode_sector_of child_node) (disk s) = Some ibuf"
    and dir: "get_int ibuf (inode_slot_of child_node * sizeof_inode_t + 4) = Some 1"
    and n: "get_int ibuf (inode_slot_of child_node * sizeof_inode_t) = Some n"
    and n0: "0 \<le> n"
    and bl: "block_list ibuf (inode_slot_of child_node * sizeof_inode_t) secs"
    and len: "int (length secs) = (n + 24) div 25"
    and c0: "0 \<le> c" and c31: "c < 2 ^ 31" and cap: "c \<le> int (length buffer)"
  shows "Dir_Read path buffer c s =
           (if c < n * 20 then Some (-1, buffer, s\<lparr>osErrno := E_BUFFER_TOO_SMALL\<rparr>)
            else Some (n, dir_slots (disk s) secs (nat n) @ drop (nat (n * 20)) buffer, s))"
proof -
  define off where "off = inode_slot_of child_node * sizeof_inode_t"
  define B where "B = nat (n div 25)"
  define l where "l = nat (n mod 25)"
  have n31: "n < 2 ^ 31" using get_int_range [OF n] by simp
  have sc: "size_t_of c = c" using c0 c31 by (intro size_t_of_id) auto
  have sn: "size_t_of n = n" using n0 n31 by (intro size_t_of_id) auto
  have sn20: "size_t_of (n * sizeof_dirent_t) = n * 20"
    using n0 n31 by (simp add: sizeof_dirent_t_def MAX_NAME_def size_t_of_id)
  have ndiv: "n div DIRENTS_PER_SECTOR = int B"
    using n0 by (simp add: B_def DIRENTS_PER_SECTOR_def SECTOR_SIZE_def sizeof_dirent_t_def
        MAX_NAME_def)
  have nmod: "n mod DIRENTS_PER_SECTOR = int l"
    by (simp add: l_def DIRENTS_PER_SECTOR_def SECTOR_SIZE_def sizeof_dirent_t_def MAX_NAME_def)
  have l25: "l < 25" unfolding l_def by simp
  have d0: "0 \<le> n div 25" using n0 by simp
  have nBl2: "n = 25 * int B + int l"
    unfolding B_def l_def using d0 by simp
  then have "n = int (25 * B + l)" by simp
  then have nBl1: "nat n = 25 * B + l" by (simp only: nat_int)
  note nBl = nBl1 nBl2
  have il: "int_of (int l) = int l" using l25 by (intro int_of_id) auto
  show ?thesis
  proof (cases "c < n * 20")
    case True
    then show ?thesis
      using path parent rd n
      by (simp add: Dir_Read_def sc sn sn20 off_def)
  next
    case False
    then have room20: "20 * nat n \<le> length buffer" using cap n0 by linarith
    have BL: "B \<le> length secs" using len nBl(2) by linarith
    have room: "500 * B \<le> length buffer" using room20 nBl(1) by simp
    have loop: "dir_read_loop ibuf off (int B) 0 0 buffer (disk s)
         = Some (True, dir_slots (disk s) secs (25 * B) @ drop (500 * B) buffer, 500 * int B)"
      using dir_read_loop_full [OF wf bl [folded off_def] BL room, of 0]
      by (simp add: dir_slots_def)
    show ?thesis
    proof (cases "l = 0")
      case True
      then have "nat n = 25 * B" "nat (n * 20) = 500 * B"
        using nBl by (simp_all add: nat_mult_distrib)
      then show ?thesis
        using path parent rd n False True loop
        by (simp add: Dir_Read_def sc sn sn20 ndiv nmod int_of_def Let_def off_def [symmetric])
    next
      case lpos: False
      have Bl: "B < length secs" using len nBl(2) lpos by linarith
      have g: "get_int ibuf (off + 8 + 4 * int B) = Some (secs ! B)"
        by (rule block_list_nth(1) [OF bl [folded off_def] Bl])
      have r: "Disk_Read (secs ! B) (disk s) = Some (disk s (secs ! B))"
        using block_list_nth(2,3) [OF bl [folded off_def] Bl] by (simp add: Disk_Read_def)
      have ls: "length (disk s (secs ! B)) = 512"
        using wf by (simp add: wf_disk_def SECTOR_SIZE_def)
      have lS: "length (dir_slots (disk s) secs (25 * B)) = nat (500 * int B)"
        by (simp add: length_dir_slots [OF wf] nat_mult_distrib)
      have m: "memcpy (dir_slots (disk s) secs (25 * B) @ drop (500 * B) buffer) (500 * int B)
                 (disk s (secs ! B)) 0 (int l * 20)
               = Some (dir_slots (disk s) secs (25 * B) @ take (nat (int l * 20)) (disk s (secs ! B))
                       @ drop (nat (int l * 20)) (drop (500 * B) buffer))"
        using lS ls l25 room20 nBl(1) by (intro memcpy_at_end) auto
      have t: "take (20 * l) (disk s (secs ! B))
                 = concat (map (dir_slot (disk s) secs) [25 * B..<25 * B + l])"
        using dir_slots_sector [of l "disk s" secs B] l25 by simp
      have fin: "dir_slots (disk s) secs (25 * B) @ take (nat (int l * 20)) (disk s (secs ! B))
                       @ drop (nat (int l * 20)) (drop (500 * B) buffer)
                 = dir_slots (disk s) secs (nat n) @ drop (nat (n * 20)) buffer"
        using dir_slots_add [of "disk s" secs "25 * B" l] t nBl
        by (simp add: nat_slot_offset nat_mult_distrib nat_add_distrib add.commute)
      have fin': "dir_slots (disk s) secs (25 * B) @ take (nat (int l * 20)) (disk s (secs ! B))
                       @ drop (nat (int l * 20) + 500 * B) buffer
                 = dir_slots (disk s) secs (nat n) @ drop (nat (n * 20)) buffer"
        using fin by simp
      have sn20': "size_t_of (n * 20) = n * 20"
        using sn20 by (simp add: sizeof_dirent_t_def MAX_NAME_def)
      show ?thesis
        using path parent rd n False lpos loop g r
        by (simp add: Dir_Read_def sc sn sn20' ndiv nmod il Let_def off_def [symmetric] m fin'
            sizeof_dirent_t_def MAX_NAME_def)
    qed
  qed
qed

theorem Dir_Read_nonnegative_capacity_witness:
  "wf_disk full_dir_disk
   \<and> follow_path ''/'' full_dir_disk = Some (Path_Found 0 0 [])
   \<and> Disk_Read (inode_sector_of 0) full_dir_disk = Some (full_dir_disk 3)
   \<and> get_int (full_dir_disk 3) (inode_slot_of 0 * sizeof_inode_t + 4) = Some 1
   \<and> get_int (full_dir_disk 3) (inode_slot_of 0 * sizeof_inode_t) = Some 25
   \<and> block_list (full_dir_disk 3) (inode_slot_of 0 * sizeof_inode_t) [13]
   \<and> Dir_Read ''/'' (replicate 504 7) 504 one_open_state
       = Some (25, dir_slots full_dir_disk [13] 25 @ replicate 4 7, one_open_state)
   \<and> Dir_Read ''/'' (replicate 504 7) 499 one_open_state
       = Some (-1, replicate 504 7, one_open_state\<lparr>osErrno := E_BUFFER_TOO_SMALL\<rparr>)"
proof -
  have d: "disk one_open_state = full_dir_disk" by (simp add: one_open_state_def)
  have h1: "wf_disk (disk one_open_state)"
    by (simp add: d wf_disk_def full_dir_disk_def fs_eval)
  have h2: "follow_path ''/'' (disk one_open_state) = Some (Path_Found 0 0 [])"
    by (simp add: d full_dir_disk_def fs_eval)
  have h3: "Disk_Read (inode_sector_of 0) (disk one_open_state) = Some (full_dir_disk 3)"
    by (simp add: d fs_eval)
  have h4: "get_int (full_dir_disk 3) (inode_slot_of 0 * sizeof_inode_t + 4) = Some 1"
    by (simp add: full_dir_disk_def fs_eval)
  have h5: "get_int (full_dir_disk 3) (inode_slot_of 0 * sizeof_inode_t) = Some 25"
    by (simp add: full_dir_disk_def fs_eval)
  have h6: "block_list (full_dir_disk 3) (inode_slot_of 0 * sizeof_inode_t) [13]"
    by (simp add: block_list_def full_dir_disk_def fs_eval)
  have h7: "int (length [13 :: int]) = (25 + 24) div 25" by simp
  have a: "Dir_Read ''/'' (replicate 504 7) 504 one_open_state
       = Some (25, dir_slots full_dir_disk [13] 25 @ replicate 4 7, one_open_state)"
    using Dir_Read_nonnegative_capacity [OF h1 h2 _ h3 h4 h5 _ h6 h7, of 504 "replicate 504 7"]
    by (simp add: d)
  have b: "Dir_Read ''/'' (replicate 504 7) 499 one_open_state
       = Some (-1, replicate 504 7, one_open_state\<lparr>osErrno := E_BUFFER_TOO_SMALL\<rparr>)"
    using Dir_Read_nonnegative_capacity [OF h1 h2 _ h3 h4 h5 _ h6 h7, of 499 "replicate 504 7"]
    by simp
  show ?thesis using h1 h2 h3 h4 h5 h6 a b by (simp add: d)
qed

text \<open>
  C8. The claim: \<open>Dir_Read\<close> fails with \<open>E_BUFFER_TOO_SMALL\<close> exactly when the capacity \<open>c\<close>
  is below \<open>n * 20\<close>, and the comment of the function says so of its argument \<open>size\<close>: if
  \<open>size\<close> is not big enough to contain all the entries, return -1 and set \<open>osErrno\<close> to
  \<open>E_BUFFER_TOO_SMALL\<close>. The test of the code, \<open>size < child->size * sizeof(dirent_t)\<close>,
  compares the \<open>int\<close> with a \<open>size_t\<close>, so \<open>size\<close> is converted to \<open>size_t\<close>, where -1
  is the largest value, and no negative \<open>size\<close> is ever too small. The root directory of
  the scenario has one entry slot and \<open>size\<close> is -1, so \<open>size < n * 20\<close>: \<open>Dir_Read\<close>
  returns 1, copies the 20 bytes of the slot into the buffer and sets no error.
\<close>

theorem Dir_Read_negative_capacity:
  "dir_read_scenario (-1) = Some (1, 97 # replicate 15 0 @ [1, 0, 0, 0], E_NONE)"
  by (simp add: dir_read_scenario_def one_entry_state_def fs_eval)

end
